theory Spec2Isabelle
  imports Main "HOL-Library.Word"
begin

section \<open>Go values and library functions used by package imapd\<close>

text \<open>
  A Go string is a sequence of bytes; it is modelled as \<open>string\<close> (a list of \<open>char\<close>,
  one per byte). The functions of packages \<open>strings\<close>, \<open>strconv\<close> and \<open>regexp\<close> that
  the package calls are modelled below. \<open>strings.Split\<close>, \<open>strings.Join\<close>,
  \<open>strings.Replace\<close> and \<open>strconv\<close> work on bytes in Go as well, so their models are
  exact on every string. \<open>strings.ToUpper\<close>, \<open>strings.ToLower\<close>, \<open>strings.TrimSpace\<close>
  and the regular expression engine work on runes (UTF-8 code points) in Go; their models
  are bytewise and agree with Go on ASCII text (\<open>ascii\<close> below), which is where the
  general theorems that depend on them are stated.
\<close>

definition ascii :: "string \<Rightarrow> bool" where
  "ascii s = list_all (\<lambda>c. (of_char c :: nat) < 128) s"

definition is_digit :: "char \<Rightarrow> bool" where
  "is_digit c = (48 \<le> (of_char c :: nat) \<and> (of_char c :: nat) \<le> 57)"

definition is_lower :: "char \<Rightarrow> bool" where
  "is_lower c = (97 \<le> (of_char c :: nat) \<and> (of_char c :: nat) \<le> 122)"

definition is_upper :: "char \<Rightarrow> bool" where
  "is_upper c = (65 \<le> (of_char c :: nat) \<and> (of_char c :: nat) \<le> 90)"

text \<open>\<open>unicode.IsSpace\<close> on ASCII: tab, line feed, vertical tab, form feed, carriage return, space.\<close>

definition is_space :: "char \<Rightarrow> bool" where
  "is_space c = ((9 \<le> (of_char c :: nat) \<and> (of_char c :: nat) \<le> 13) \<or> (of_char c :: nat) = 32)"

definition upper_char :: "char \<Rightarrow> char" where
  "upper_char c = (if is_lower c then char_of ((of_char c :: nat) - 32) else c)"

definition lower_char :: "char \<Rightarrow> char" where
  "lower_char c = (if is_upper c then char_of ((of_char c :: nat) + 32) else c)"

definition ToUpper :: "string \<Rightarrow> string" where
  "ToUpper s = map upper_char s"

definition ToLower :: "string \<Rightarrow> string" where
  "ToLower s = map lower_char s"

definition TrimSpace :: "string \<Rightarrow> string" where
  "TrimSpace s = rev (dropWhile is_space (rev (dropWhile is_space s)))"

text \<open>
  \<open>strings.Split(s, sep)\<close> for a separator of one byte, which is how every call of the
  package uses it. The result is never empty: \<open>Split "" sep\<close> is the list holding the
  empty string (so the first branch of the \<open>case\<close> below is never taken).
\<close>

fun Split :: "string \<Rightarrow> char \<Rightarrow> string list" where
  "Split [] sep = [[]]"
| "Split (c # cs) sep =
     (if c = sep then [] # Split cs sep
      else (case Split cs sep of [] \<Rightarrow> [[c]] | w # ws \<Rightarrow> (c # w) # ws))"

fun Join :: "string list \<Rightarrow> string \<Rightarrow> string" where
  "Join [] sep = []"
| "Join [x] sep = x"
| "Join (x # y # ys) sep = x @ sep @ Join (y # ys) sep"

text \<open>\<open>strings.Replace(t, `"`, `\"`, -1)\<close>: every double quote gets a backslash in front.\<close>

definition escape_quotes :: "string \<Rightarrow> string" where
  "escape_quotes t = concat (map (\<lambda>c. if c = CHR 0x22 then [CHR 0x5C, CHR 0x22] else [c]) t)"

definition digit_val :: "char \<Rightarrow> int" where
  "digit_val c = int (of_char c) - 48"

text \<open>
  \<open>strconv.ParseUint(s, 10, 32)\<close>: the empty string and any byte that is not a decimal
  digit are a syntax error, a value above \<open>2^32 - 1 = 4294967295\<close> is a range error.
  The caller only tests the error against nil, so both errors are \<open>None\<close>. The loop
  carries the value read so far, as the library's loop does.
\<close>

fun parse_uint_loop :: "int \<Rightarrow> string \<Rightarrow> int option" where
  "parse_uint_loop n [] = Some n"
| "parse_uint_loop n (c # cs) =
     (if \<not> is_digit c then None
      else if n * 10 + digit_val c > 4294967295 then None
      else parse_uint_loop (n * 10 + digit_val c) cs)"

definition ParseUint32 :: "string \<Rightarrow> int option" where
  "ParseUint32 s = (if s = [] then None else parse_uint_loop 0 s)"

section \<open>util.go: ranges\<close>

record Range =
  Start :: "32 word"
  End :: "32 word"
  Infinite :: bool

text \<open>
  \<open>parseRangeSet\<close>: the loop over the comma-separated tokens, with the slice \<open>set\<close>
  built so far (\<open>set'\<close> here). \<open>None\<close> is the nil slice the function returns at the first
  bad token.
\<close>

fun parseRangeSet_loop :: "Range list \<Rightarrow> string list \<Rightarrow> Range list option" where
  "parseRangeSet_loop set' [] = Some set'"
| "parseRangeSet_loop set' (s # ss) =
     (if length s = 0 then None
      else let p = Split s (CHR '':'') in
        if length p > 2 then None
        else (case ParseUint32 (p ! 0) of
          None \<Rightarrow> None
        | Some start \<Rightarrow>
            (if length p > 1 then
               (if p ! 1 = ''*'' then
                  parseRangeSet_loop
                    (set' @ [\<lparr>Start = of_int start, End = 0, Infinite = True\<rparr>]) ss
                else (case ParseUint32 (p ! 1) of
                  None \<Rightarrow> None
                | Some end' \<Rightarrow>
                    parseRangeSet_loop
                      (set' @ [\<lparr>Start = of_int start, End = of_int end', Infinite = False\<rparr>]) ss))
             else
               parseRangeSet_loop
                 (set' @ [\<lparr>Start = of_int start, End = 0, Infinite = False\<rparr>]) ss)))"

definition parseRangeSet :: "string \<Rightarrow> Range list option" where
  "parseRangeSet rs = parseRangeSet_loop [] (Split rs (CHR '',''))"

section \<open>Panics, errors and slices\<close>

text \<open>
  A Go function either returns or panics (an index out of range, a slice whose bounds
  are out of range, a method called on a nil interface value).
\<close>

datatype 'a go = Panics | Returns 'a

text \<open>
  The error values that reach the package: its sentinel \<open>ErrUnknownMailbox\<close>, its type
  \<open>ErrInvalidDataItem\<close>, the \<open>*strconv.NumError\<close> of \<open>strconv.Atoi\<close> (with the text it
  could not convert), the error that \<open>sendobject\<close> makes with \<open>errors.New\<close>, an error of
  the buffered writer, and any other error value of a collaborator.
\<close>

datatype error =
    ErrUnknownMailbox
  | ErrInvalidDataItem string
  | NumError string
  | ErrUnknownObject
  | WriteError
  | OtherError string

text \<open>
  The slice expression \<open>xs[lo:hi]\<close>; it panics unless \<open>0 \<le> lo \<le> hi \<le> len(xs)\<close>. The
  bounds are integers: the source computes \<open>len(xs)-1\<close>, which is \<open>-1\<close> on an empty slice.
\<close>

definition slice :: "'a list \<Rightarrow> int \<Rightarrow> int \<Rightarrow> 'a list option" where
  "slice xs lo hi =
     (if 0 \<le> lo \<and> lo \<le> hi \<and> hi \<le> int (length xs)
      then Some (take (nat (hi - lo)) (drop (nat lo) xs)) else None)"

definition decimal :: "string \<Rightarrow> int" where
  "decimal ds = foldl (\<lambda>n c. n * 10 + digit_val c) 0 ds"

text \<open>
  \<open>strconv.Atoi\<close> with a 64-bit \<open>int\<close>: an optional sign, then at least one decimal
  digit and nothing else, and a value in \<open>[-2^63, 2^63 - 1]\<close>.
\<close>

definition Atoi :: "string \<Rightarrow> error + int" where
  "Atoi s =
     (let neg = (s \<noteq> [] \<and> hd s = CHR ''-'');
          ds = (if s \<noteq> [] \<and> (hd s = CHR ''-'' \<or> hd s = CHR ''+'') then tl s else s)
      in if ds = [] \<or> \<not> list_all is_digit ds then Inl (NumError s)
         else if neg \<and> decimal ds > 9223372036854775808 then Inl (NumError s)
         else if \<not> neg \<and> decimal ds > 9223372036854775807 then Inl (NumError s)
         else Inr (if neg then - decimal ds else decimal ds))"

section \<open>Package regexp, as far as \<open>reDataItemName\<close> needs it\<close>

text \<open>
  Go's \<open>regexp\<close> returns the leftmost match and, among the matches that start there,
  the one a backtracking engine finds first. \<open>rmatch\<close> is that engine: from a state
  (the rest of the input and the submatches so far) it lists the states after a match in
  the order a backtracking search tries them, so the head of the list is the match
  Go reports. Repetition is over a character class, which is all the pattern uses.
  \<open>EndText\<close> is \<open>$\<close> without the multi-line flag.
\<close>

datatype re =
    Eps
  | Chr "char \<Rightarrow> bool"
  | Seq re re
  | Alt re re
  | Opt re
  | Star "char \<Rightarrow> bool"
  | Plus "char \<Rightarrow> bool"
  | Group nat re
  | EndText

type_synonym mstate = "string \<times> string list"

fun star_rests :: "(char \<Rightarrow> bool) \<Rightarrow> string \<Rightarrow> string list" where
  "star_rests P [] = [[]]"
| "star_rests P (c # cs) = (if P c then star_rests P cs @ [c # cs] else [c # cs])"

fun rmatch :: "re \<Rightarrow> mstate \<Rightarrow> mstate list" where
  "rmatch Eps st = [st]"
| "rmatch (Chr P) (s, caps) =
     (case s of [] \<Rightarrow> [] | c # cs \<Rightarrow> if P c then [(cs, caps)] else [])"
| "rmatch (Seq a b) st = concat (map (rmatch b) (rmatch a st))"
| "rmatch (Alt a b) st = rmatch a st @ rmatch b st"
| "rmatch (Opt a) st = rmatch a st @ [st]"
| "rmatch (Star P) (s, caps) = map (\<lambda>r. (r, caps)) (star_rests P s)"
| "rmatch (Plus P) (s, caps) =
     (case s of [] \<Rightarrow> []
      | c # cs \<Rightarrow> if P c then map (\<lambda>r. (r, caps)) (star_rests P cs) else [])"
| "rmatch (Group n a) (s, caps) =
     map (\<lambda>(r, caps'). (r, caps'[n := take (length s - length r) s])) (rmatch a (s, caps))"
| "rmatch EndText (s, caps) = (if s = [] then [(s, caps)] else [])"

text \<open>
  A match that starts at the head of \<open>s\<close>: the rest of the input after it and the
  submatches, number 0 being the whole match. \<open>k\<close> is the number of submatches; a group
  that took no part in the match is the empty string, as in \<open>FindAllStringSubmatch\<close>.
\<close>

definition match_here :: "nat \<Rightarrow> re \<Rightarrow> string \<Rightarrow> mstate option" where
  "match_here k r s =
     (case rmatch r (s, replicate k []) of
        [] \<Rightarrow> None
      | (rest, caps) # _ \<Rightarrow> Some (rest, caps[0 := take (length s - length rest) s]))"

fun find_first :: "nat \<Rightarrow> re \<Rightarrow> string \<Rightarrow> mstate option" where
  "find_first k r [] = match_here k r []"
| "find_first k r (c # cs) =
     (case match_here k r (c # cs) of
        Some m \<Rightarrow> Some m
      | None \<Rightarrow> find_first k r cs)"

text \<open>
  \<open>FindAllStringSubmatch(s, -1)\<close>, the loop of \<open>allMatches\<close>: search from the current
  position. A match that ends at the position (\<open>matches[1] == pos\<close>) is empty and sits
  there; it is dropped when the match before ended there (\<open>prev\<close>), and the search moves
  one character on, or stops at the end of the text. After any other match the search
  goes on where the match ended. A match never ends before the position, so it ends at
  the position exactly when the rest after it is not shorter than the text searched,
  which is how the test is written here (\<open>find_first_length\<close> and \<open>ends_at_position\<close>
  below).
\<close>

fun find_all :: "nat \<Rightarrow> re \<Rightarrow> string \<Rightarrow> bool \<Rightarrow> string list list" where
  "find_all k r s prev =
     (case find_first k r s of
        None \<Rightarrow> []
      | Some (rest, caps) \<Rightarrow>
          if \<not> length rest < length s then
            (if prev then [] else [caps]) @
            (case s of [] \<Rightarrow> [] | c # cs \<Rightarrow> find_all k r cs False)
          else caps # find_all k r rest True)"

declare find_all.simps [simp del]

definition FindAllStringSubmatch :: "nat \<Rightarrow> re \<Rightarrow> string \<Rightarrow> string list list" where
  "FindAllStringSubmatch k r s = find_all k r s False"

section \<open>util.go: message data item names\<close>

text \<open>The classes and literals of the pattern, all under the flag \<open>(?i)\<close>.\<close>

definition ci :: "char \<Rightarrow> char \<Rightarrow> bool" where
  "ci c d = (lower_char d = lower_char c)"

fun lit_ci :: "string \<Rightarrow> re" where
  "lit_ci [] = Eps"
| "lit_ci [c] = Chr (ci c)"
| "lit_ci (c # cs) = Seq (Chr (ci c)) (lit_ci cs)"

fun seqs :: "re list \<Rightarrow> re" where
  "seqs [] = Eps"
| "seqs [r] = r"
| "seqs (r # rs) = Seq r (seqs rs)"

text \<open>\<open>\s\<close> is \<open>[\t\n\f\r ]\<close>, \<open>\d\<close> is \<open>[0-9]\<close>, and \<open>.\<close> is any character but the line feed.\<close>

definition re_space :: "char \<Rightarrow> bool" where
  "re_space c = ((of_char c :: nat) = 9 \<or> (of_char c :: nat) = 10 \<or> (of_char c :: nat) = 12
     \<or> (of_char c :: nat) = 13 \<or> (of_char c :: nat) = 32)"

definition re_any :: "char \<Rightarrow> bool" where
  "re_any c = ((of_char c :: nat) \<noteq> 10)"

text \<open>\<open>[a-z0-9\.]\<close> and \<open>[a-z\-\s]\<close>, case-insensitive.\<close>

definition cls_atom :: "char \<Rightarrow> bool" where
  "cls_atom c = (is_lower c \<or> is_upper c \<or> is_digit c \<or> c = CHR ''.'')"

definition cls_field :: "char \<Rightarrow> bool" where
  "cls_field c = (is_lower c \<or> is_upper c \<or> c = CHR ''-'' \<or> re_space c)"

text \<open>
  \<^verbatim>\<open>(?i)((body(?:\.peek)?)\[([a-z0-9\.]*)(\s\([a-z\-\s]*\))?\](<\d+.\d+>)?|[a-z0-9\.]+)(\s|$)\<close>
  with its six groups; a match has seven submatches.
\<close>

definition reDataItemName :: re where
  "reDataItemName =
     seqs [
       Group 1 (Alt
         (seqs [
            Group 2 (seqs [lit_ci ''body'', Opt (lit_ci ''.peek'')]),
            Chr (ci (CHR ''['')),
            Group 3 (Star cls_atom),
            Opt (Group 4 (seqs [Chr re_space, Chr (ci (CHR ''('')), Star cls_field,
                                Chr (ci (CHR '')''))])),
            Chr (ci (CHR '']'')),
            Opt (Group 5 (seqs [Chr (ci (CHR ''<'')), Plus is_digit, Chr re_any, Plus is_digit,
                                Chr (ci (CHR ''>''))]))])
         (Plus cls_atom)),
       Group 6 (Alt (Chr re_space) EndText)]"

definition validDataItemNames :: "string \<Rightarrow> bool" where
  "validDataItemNames n = (n \<in> set [
     ''BODY'', ''BODY[]'', ''BODY.PEEK[]'', ''BODYSTRUCTURE'', ''ENVELOPE'', ''FLAGS'',
     ''INTERNALDATE'', ''RFC822'', ''RFC822.HEADER'', ''RFC822.SIZE'', ''RFC822.TEXT'', ''UID''])"

record MessageDataItemName =
  Name :: string
  Section :: string
  FieldNames :: "string list option"
  Partial :: "int list option"

text \<open>The composite literal \<open>{Name: n}\<close>: the other fields are empty or nil.\<close>

definition named :: "string \<Rightarrow> MessageDataItemName" where
  "named n = \<lparr>Name = n, Section = [], FieldNames = None, Partial = None\<rparr>"

definition macroMessageDataItemNames :: "string \<Rightarrow> MessageDataItemName list option" where
  "macroMessageDataItemNames k =
     (if k = ''FAST'' then Some [named ''FLAGS'', named ''INTERNALDATE'', named ''RFC822.SIZE'']
      else if k = ''ALL'' then
        Some [named ''FLAGS'', named ''INTERNALDATE'', named ''RFC822.SIZE'', named ''ENVELOPE'']
      else if k = ''FULL'' then
        Some [named ''FLAGS'', named ''INTERNALDATE'', named ''RFC822.SIZE'', named ''ENVELOPE'',
              named ''BODY'']
      else None)"

text \<open>
  The body of the loop of \<open>parseMessageDataItemNames\<close> up to the test of the name: the
  item of one match \<open>s\<close>. \<open>Returns (Inl e)\<close> is the \<open>return nil, err\<close> after \<open>Atoi\<close>;
  \<open>p[1]\<close> panics when the text between \<open><\<close> and \<open>>\<close> holds no dot.
\<close>

definition fieldNames_of :: "string \<Rightarrow> string list option go" where
  "fieldNames_of s4 =
     (if s4 \<noteq> [] then
        (case slice s4 2 (int (length s4) - 1) of
           None \<Rightarrow> Panics
         | Some t \<Rightarrow> Returns (Some (Split t (CHR '' ''))))
      else Returns None)"

definition partial_of :: "string \<Rightarrow> (error + int list option) go" where
  "partial_of s5 =
     (if s5 \<noteq> [] then
        (case slice s5 1 (int (length s5) - 1) of
           None \<Rightarrow> Panics
         | Some t \<Rightarrow>
             (let p = Split t (CHR ''.'') in
              case Atoi (p ! 0) of
                Inl e \<Rightarrow> Returns (Inl e)
              | Inr start \<Rightarrow>
                  if length p < 2 then Panics
                  else (case Atoi (p ! 1) of
                    Inl e \<Rightarrow> Returns (Inl e)
                  | Inr count \<Rightarrow> Returns (Inr (Some [start, count])))))
      else Returns (Inr None))"

definition item_of_match :: "string list \<Rightarrow> (error + MessageDataItemName) go" where
  "item_of_match s =
     (if s ! 2 \<noteq> [] then
        (case fieldNames_of (s ! 4) of
           Panics \<Rightarrow> Panics
         | Returns fieldNames \<Rightarrow>
             (case partial_of (s ! 5) of
                Panics \<Rightarrow> Panics
              | Returns (Inl e) \<Rightarrow> Returns (Inl e)
              | Returns (Inr partial) \<Rightarrow>
                  Returns (Inr \<lparr>Name = ToUpper (s ! 2) @ ''[]'', Section = ToUpper (s ! 3),
                                FieldNames = fieldNames, Partial = partial\<rparr>)))
      else Returns (Inr (named (ToUpper (TrimSpace (s ! 0))))))"

type_synonym parse_result = "(MessageDataItemName list option \<times> error option) go"

fun parse_loop :: "MessageDataItemName list \<Rightarrow> string list list \<Rightarrow> parse_result" where
  "parse_loop items [] = Returns (Some items, None)"
| "parse_loop items (s # ms) =
     (case item_of_match s of
        Panics \<Rightarrow> Panics
      | Returns (Inl e) \<Rightarrow> Returns (None, Some e)
      | Returns (Inr item) \<Rightarrow>
          if \<not> validDataItemNames (Name item)
          then Returns (Some items, Some (ErrInvalidDataItem (s ! 0)))
          else parse_loop (items @ [item]) ms)"

text \<open>
  \<open>names[0]\<close> panics on the empty string, and \<open>names[1 : len(names)-1]\<close> on the string
  that is one opening parenthesis. The last byte is dropped whatever it is.
\<close>

definition parseMessageDataItemNames :: "string \<Rightarrow> parse_result" where
  "parseMessageDataItemNames names =
     (case names of
        [] \<Rightarrow> Panics
      | c # _ \<Rightarrow>
          if c \<noteq> CHR ''('' then
            (case macroMessageDataItemNames names of
               Some items \<Rightarrow> Returns (Some items, None)
             | None \<Rightarrow> parse_loop [] (FindAllStringSubmatch 7 reDataItemName names))
          else
            (case slice names 1 (int (length names) - 1) of
               None \<Rightarrow> Panics
             | Some names' \<Rightarrow> parse_loop [] (FindAllStringSubmatch 7 reDataItemName names')))"

section \<open>interface.go: the collaborators\<close>

text \<open>
  Modelled from the spec: the field \<open>Unseen\<close>, which \<open>serve\<close> reads for \<open>STATUS\<close> and which
  the declaration of \<open>MailboxInfo\<close> in interface.go does not have; the specification's
  \<open>MailboxInfo\<close> has it, an unsigned 32-bit number like the others.
\<close>

record MailboxInfo =
  NextUid :: "32 word"
  UidValidity :: "32 word"
  Exists :: "32 word"
  Recent :: "32 word"
  Unseen :: "32 word"

text \<open>
  A \<open>time.Time\<close>, by the fields that the layout \<open>internalDateFormat\<close> prints: \<open>month\<close> is
  1 for January to 12 for December, and \<open>zone\<close> is the offset of the time zone in seconds
  east of UTC.
\<close>

record Time =
  year :: int
  month :: nat
  day :: int
  hour :: int
  minute :: int
  second :: int
  zone :: int

text \<open>
  The dynamic type of the \<open>interface{}\<close> in \<open>MessageDataItem.Data\<close>: the six that
  \<open>sendobject\<close> knows, and \<open>ObjOther\<close> for a value of any other type.
\<close>

datatype obj =
    ObjNil
  | ObjInt int
  | ObjString string
  | ObjStrings "string list"
  | ObjTime Time
  | ObjBytes string
  | ObjOther

record MessageDataItem =
  Item :: MessageDataItemName
  Data :: obj

text \<open>
  A \<open>Mailbox\<close> is what its two methods return. The map that \<open>FetchMessagesByUID\<close>
  returns is the list of its entries in the order in which the \<open>range\<close> loop of \<open>serve\<close>
  visits them. A \<open>Backend\<close> is what its method \<open>Mailbox\<close> returns for a name: a mailbox or
  the nil interface value, and an error or nil.
\<close>

record Mailbox =
  Info :: "MailboxInfo \<times> error option"
  FetchMessagesByUID ::
    "Range list \<Rightarrow> MessageDataItemName list option \<Rightarrow>
       (32 word \<times> MessageDataItem list) list \<times> error option"

datatype tls_config = TlsMaterial string

record Server =
  TlsConfig :: "tls_config option"
  InsecureLogin :: bool
  Backend :: "string \<Rightarrow> Mailbox option \<times> error option"

section \<open>imapd.go: the session\<close>

text \<open>
  The session, with its connection: \<open>out\<close> is the texts handed to the buffered writer,
  in order, whether or not the write succeeds; \<open>wfail\<close> tells whether the writer reports
  an error for a write, a property of the connection that the model keeps for the whole
  session; and \<open>handshake_ok\<close> whether a TLS handshake on the connection succeeds. The
  lines the peer sends are an argument of the loop. Logging (\<open>errorf\<close> and the
  \<open>fmt.Printf\<close> of every line read and written) is left out.
\<close>

record session =
  secure :: bool
  authenticated :: bool
  mailbox :: "Mailbox option"
  out :: "string list"
  wfail :: bool
  handshake_ok :: bool

definition CRLF :: string where
  "CRLF = [CHR 0x0D, CHR 0x0A]"

definition dquote :: char where
  "dquote = CHR 0x22"

definition bslash :: char where
  "bslash = CHR 0x5C"

text \<open>Decimal digits of a number that is not negative, and \<open>%d\<close>.\<close>

function udec :: "int \<Rightarrow> string" where
  "udec n =
     (if n < 10 then [''0123456789'' ! nat n]
      else udec (n div 10) @ [''0123456789'' ! nat (n mod 10)])"
  by pat_completeness auto
termination
  by (relation "measure nat") auto

declare udec.simps [simp del]

definition itoa :: "int \<Rightarrow> string" where
  "itoa i = (if i < 0 then CHR ''-'' # udec (- i) else udec i)"

text \<open>\<open>sendf\<close> with its format applied: \<open>text\<close> is what \<open>fmt.Fprintf\<close> writes.\<close>

definition sendf :: "session \<Rightarrow> string \<Rightarrow> session \<times> error option" where
  "sendf s text = (s\<lparr>out := out s @ [text]\<rparr>, if wfail s then Some WriteError else None)"

definition sendlinef :: "session \<Rightarrow> string \<Rightarrow> session \<times> error option" where
  "sendlinef s text = sendf s (text @ CRLF)"

text \<open>\<open>s.bw.Write(t)\<close>.\<close>

definition bw_Write :: "session \<Rightarrow> string \<Rightarrow> session \<times> error option" where
  "bw_Write s t = (s\<lparr>out := out s @ [t]\<rparr>, if wfail s then Some WriteError else None)"

text \<open>\<open>t.Format("02-Jan-2006 15:04:05 -0700")\<close>; \<open>pad\<close> is the library's \<open>appendInt\<close>.\<close>

definition pad :: "int \<Rightarrow> nat \<Rightarrow> string" where
  "pad x width =
     (let ds = udec (abs x) in
        (if x < 0 then ''-'' else []) @ replicate (width - length ds) (CHR ''0'') @ ds)"

definition month_abbrev :: "nat \<Rightarrow> string" where
  "month_abbrev m =
     [''Jan'', ''Feb'', ''Mar'', ''Apr'', ''May'', ''Jun'',
      ''Jul'', ''Aug'', ''Sep'', ''Oct'', ''Nov'', ''Dec''] ! (m - 1)"

definition Format_internalDate :: "Time \<Rightarrow> string" where
  "Format_internalDate t =
     pad (day t) 2 @ ''-'' @ month_abbrev (month t) @ ''-'' @ pad (year t) 4 @ '' '' @
     pad (hour t) 2 @ '':'' @ pad (minute t) 2 @ '':'' @ pad (second t) 2 @ '' '' @
     (let z = sgn (zone t) * (abs (zone t) div 60) in
        (if z < 0 then ''-'' else ''+'') @ pad (abs z div 60) 2 @ pad (abs z mod 60) 2)"

text \<open>
  \<open>sendobject\<close>: the type switch, then the statement after it. \<open>sendobject_switch\<close> gives
  the session after the switch and the error of a \<open>return\<close> inside it, if one ran; the
  results of the calls of \<open>sendf\<close> in the first five cases are dropped, as in the source.
  After the switch comes \<open>return errors.New("imapd: unknown type in sendobject")\<close>, for
  every case that did not return.
\<close>

definition sendobject_switch :: "session \<Rightarrow> obj \<Rightarrow> session \<times> error option" where
  "sendobject_switch s ob =
     (case ob of
        ObjNil \<Rightarrow> (fst (sendf s ''NIL''), None)
      | ObjInt i \<Rightarrow> (fst (sendf s (itoa i)), None)
      | ObjString t \<Rightarrow> (fst (sendf s ([dquote] @ escape_quotes t @ [dquote])), None)
      | ObjStrings ts \<Rightarrow> (fst (sendf s (''('' @ Join ts '' '' @ '')'')), None)
      | ObjTime t \<Rightarrow> (fst (sendf s ([dquote] @ Format_internalDate t @ [dquote])), None)
      | ObjBytes t \<Rightarrow>
          (case sendf s (''{'' @ itoa (int (length t)) @ ''}'' @ CRLF) of
             (s1, Some err) \<Rightarrow> (s1, Some err)
           | (s1, None) \<Rightarrow>
               (case bw_Write s1 t of
                  (s2, Some err) \<Rightarrow> (s2, Some err)
                | (s2, None) \<Rightarrow> (s2, None)))
      | ObjOther \<Rightarrow> (s, None))"

definition sendobject :: "session \<Rightarrow> obj \<Rightarrow> session \<times> error option" where
  "sendobject s ob =
     (case sendobject_switch s ob of
        (s', Some err) \<Rightarrow> (s', Some err)
      | (s', None) \<Rightarrow> (s', Some ErrUnknownObject))"

text \<open>
  \<open>MessageDataItemName.String\<close>; \<open>out[0][:len(out[0])-2]\<close> panics on a name shorter than
  two bytes.
\<close>

definition item_String :: "MessageDataItemName \<Rightarrow> string go" where
  "item_String d =
     (if Section d \<noteq> [] then
        (case slice (Name d) 0 (int (length (Name d)) - 2) of
           None \<Rightarrow> Panics
         | Some n \<Rightarrow>
             Returns (n @ ''['' @ Section d @
               (case FieldNames d of None \<Rightarrow> [] | Some fs \<Rightarrow> '' ('' @ Join fs '' '' @ '')'') @
               '']'' @
               (case Partial d of
                  None \<Rightarrow> []
                | Some pr \<Rightarrow>
                    if length pr = 2
                    then ''<'' @ itoa (pr ! 0) @ ''.'' @ itoa (pr ! 1) @ ''>'' else [])))
      else Returns (Name d))"

section \<open>imapd.go: the command loop\<close>

text \<open>
  One pass of the loop of \<open>serve\<close> ends in one of three ways: control goes back to the
  head of the loop and the next line is read (\<open>Continue\<close>), \<open>serve\<close> returns and the
  deferred \<open>Close\<close> runs (\<open>Return\<close>), or the goroutine panics (\<open>Panic\<close>).
\<close>

datatype outcome = Continue session | Return session | Panic

text \<open>
  The line is trimmed and split at single spaces; fewer than two parts end the session.
  Otherwise the parts are the tag, the command in lower case and the arguments.
\<close>

definition parse_line :: "string \<Rightarrow> (string \<times> string \<times> string list) option" where
  "parse_line sl =
     (let parts = Split (TrimSpace sl) (CHR '' '') in
        if length parts < 2 then None
        else Some (parts ! 0, ToLower (parts ! 1), drop 2 parts))"

definition capabilities :: "Server \<Rightarrow> session \<Rightarrow> string list" where
  "capabilities srv s =
     [''IMAP4rev1''] @
     (if TlsConfig srv \<noteq> None then [''STARTTLS''] else []) @
     (if secure s \<or> InsecureLogin srv then [''AUTH=login''] else [''LOGINDISABLED''])"

definition cmd_capability :: "Server \<Rightarrow> session \<Rightarrow> string \<Rightarrow> outcome" where
  "cmd_capability srv s tag =
     (let s1 = fst (sendlinef s (''* CAPABILITY '' @ Join (capabilities srv s) '' ''));
          s2 = fst (sendlinef s1 (tag @ '' OK CAPABILITY completed''))
      in Continue s2)"

text \<open>
  The format of the third branch has a verb \<open>%s\<close> and the call has no operand for it, so
  \<open>fmt\<close> prints \<open>%!s(MISSING)\<close> where the tag was meant.
\<close>

definition cmd_starttls :: "Server \<Rightarrow> session \<Rightarrow> string \<Rightarrow> outcome" where
  "cmd_starttls srv s tag =
     (if secure s then Continue (fst (sendlinef s (tag @ '' NO connection already secure'')))
      else if TlsConfig srv = None then
        Continue (fst (sendlinef s (tag @ '' NO TLS not configured'')))
      else
        (let s1 = fst (sendlinef s ''%!s(MISSING) OK Begin TLS negotiation now'') in
           if \<not> handshake_ok s1 then Return s1
           else Continue (s1\<lparr>secure := True\<rparr>)))"

definition cmd_login :: "Server \<Rightarrow> session \<Rightarrow> string \<Rightarrow> outcome" where
  "cmd_login srv s tag =
     (if secure s \<or> InsecureLogin srv then
        Continue (fst (sendlinef (s\<lparr>authenticated := True\<rparr>) (tag @ '' OK User logged in'')))
      else
        Continue (fst (sendlinef s (tag @ '' NO Login only supported over a secure connection''))))"

definition cmd_logout :: "session \<Rightarrow> string \<Rightarrow> outcome" where
  "cmd_logout s tag =
     (let s1 = fst (sendlinef s ''* BYE LOGOUT Requested'');
          s2 = fst (sendlinef s1 (tag @ '' OK '' @ itoa 0 @ '' good day (Success)''))
      in Continue s2)"

text \<open>The loop over the item names of \<open>STATUS\<close>; \<open>first\<close> is \<open>i == 0\<close>.\<close>

fun status_loop :: "MailboxInfo \<Rightarrow> session \<Rightarrow> bool \<Rightarrow> string list \<Rightarrow> session" where
  "status_loop info s first [] = s"
| "status_loop info s first (it # its) =
     (let s1 = (if \<not> first then fst (sendf s '' '') else s);
          u = ToUpper it;
          s2 = (if u = ''MESSAGES'' then fst (sendf s1 (''MESSAGES '' @ itoa (uint (Exists info))))
                else if u = ''RECENT'' then fst (sendf s1 (''RECENT '' @ itoa (uint (Recent info))))
                else if u = ''UIDNEXT'' then fst (sendf s1 (''UIDNEXT '' @ itoa (uint (NextUid info))))
                else if u = ''UIDVALIDITY'' then
                  fst (sendf s1 (''UIDVALIDITY '' @ itoa (uint (UidValidity info))))
                else if u = ''UNSEEN'' then fst (sendf s1 (''UNSEEN '' @ itoa (uint (Unseen info))))
                else s1)
      in status_loop info s2 False its)"

text \<open>
  \<open>STATUS\<close>. \<open>mb.Info()\<close> on the nil interface value panics, and so does
  \<open>args[1][1:len(args[1])-1]\<close> on an argument shorter than two bytes.
\<close>

definition cmd_status :: "Server \<Rightarrow> session \<Rightarrow> string \<Rightarrow> string list \<Rightarrow> outcome" where
  "cmd_status srv s tag args =
     (if length args < 2 then
        Continue (fst (sendlinef s (tag @ '' BAD Missing mailbox and item names'')))
      else
        (case Backend srv (args ! 0) of
           (mb, Some err) \<Rightarrow>
             if err = ErrUnknownMailbox
             then Continue (fst (sendlinef s (tag @ '' NO unknown mailbox'')))
             else Continue (fst (sendlinef s (tag @ '' NO internal error'')))
         | (mb, None) \<Rightarrow>
             (case mb of
                None \<Rightarrow> Panic
              | Some m \<Rightarrow>
                  (case Info m of
                     (info, Some err) \<Rightarrow> Continue (fst (sendlinef s (tag @ '' NO internal error'')))
                   | (info, None) \<Rightarrow>
                       (let s1 = fst (sendf s (''* STATUS '' @ args ! 0 @ '' (''))
                        in case slice (args ! 1) 1 (int (length (args ! 1)) - 1) of
                             None \<Rightarrow> Panic
                           | Some inner \<Rightarrow>
                               Continue (fst (sendlinef
                                 (status_loop info s1 True (Split inner (CHR '' ''))) '')'')))))))"

definition flag :: "string \<Rightarrow> string" where
  "flag n = bslash # n"

text \<open>
  \<open>SELECT\<close>. The result of \<open>Backend.Mailbox\<close> is assigned to \<open>s.mailbox\<close> and to \<open>err\<close> in
  one statement, before \<open>err\<close> is tested.
\<close>

definition cmd_select :: "Server \<Rightarrow> session \<Rightarrow> string \<Rightarrow> string list \<Rightarrow> outcome" where
  "cmd_select srv s tag args =
     (if length args < 1 then Continue (fst (sendlinef s (tag @ '' BAD Missing mailbox name'')))
      else
        (case Backend srv (args ! 0) of
           (mb, err) \<Rightarrow>
             (let s0 = s\<lparr>mailbox := mb\<rparr> in
              case err of
                Some e \<Rightarrow>
                  if e = ErrUnknownMailbox
                  then Continue (fst (sendlinef s0 (tag @ '' NO unknown mailbox'')))
                  else Continue (fst (sendlinef s0 (tag @ '' NO internal error'')))
              | None \<Rightarrow>
                  (case mailbox s0 of
                     None \<Rightarrow> Panic
                   | Some m \<Rightarrow>
                       (case Info m of
                          (info, Some e) \<Rightarrow>
                            Continue (fst (sendlinef s0 (tag @ '' NO internal error'')))
                        | (info, None) \<Rightarrow>
                            (let s1 = fst (sendlinef s0 (''* FLAGS ('' @ flag ''Answered'' @ '' '' @
                                        flag ''Flagged'' @ '' '' @ flag ''Draft'' @ '' '' @
                                        flag ''Deleted'' @ '' '' @ flag ''Seen'' @ '')''));
                                 s2 = fst (sendlinef s1 (''* OK [PERMANENTFLAGS ('' @
                                        flag ''Answered'' @ '' '' @ flag ''Flagged'' @ '' '' @
                                        flag ''Draft'' @ '' '' @ flag ''Deleted'' @ '' '' @
                                        flag ''Seen'' @ '' '' @ flag ''*'' @ '')]''));
                                 s3 = fst (sendlinef s2 (''* OK [UIDVALIDITY '' @
                                        itoa (uint (UidValidity info)) @ '']''));
                                 s4 = fst (sendlinef s3 (''* OK [UIDNEXT '' @
                                        itoa (uint (NextUid info)) @ '']''));
                                 s5 = fst (sendlinef s4 (''* '' @ itoa (uint (Exists info)) @ '' EXISTS''));
                                 s6 = fst (sendlinef s5 (''* '' @ itoa (uint (Recent info)) @ '' RECENT''));
                                 s7 = fst (sendlinef s6 (tag @ '' OK [READ-WRITE] Completed''))
                             in Continue s7))))))"

text \<open>\<open>LIST\<close>: \<open>args[1]\<close> panics when there are fewer than two arguments.\<close>

definition cmd_list :: "session \<Rightarrow> string \<Rightarrow> string list \<Rightarrow> outcome" where
  "cmd_list s tag args =
     (if length args < 2 then Panic
      else
        (let s1 = (if args ! 1 = [] then
                     fst (sendlinef s (''* LIST ('' @ flag ''Noselect'' @ '') '' @
                       [dquote] @ ''/'' @ [dquote] @ '' '' @ [dquote] @ ''/'' @ [dquote]))
                   else
                     fst (sendlinef s (''* LIST ('' @ flag ''HasNoChildren'' @ '') '' @
                       [dquote] @ ''/'' @ [dquote] @ '' '' @ [dquote] @ ''INBOX'' @ [dquote])))
         in Continue (fst (sendlinef s1 (tag @ '' OK LIST complete'')))))"

text \<open>
  The two loops that write the result of \<open>UID FETCH\<close>: over the data items of one message
  (\<open>first\<close> is \<open>i == 0\<close>; the result of \<open>sendobject\<close> is dropped) and over the messages.
\<close>

fun fetch_data_loop :: "session \<Rightarrow> bool \<Rightarrow> MessageDataItem list \<Rightarrow> session go" where
  "fetch_data_loop s first [] = Returns s"
| "fetch_data_loop s first (v # vs) =
     (case item_String (Item v) of
        Panics \<Rightarrow> Panics
      | Returns str \<Rightarrow>
          (let s1 = (if first then fst (sendf s (str @ '' ''))
                     else fst (sendf s ('' '' @ str @ '' '')));
               s2 = fst (sendobject s1 (Data v))
           in fetch_data_loop s2 False vs))"

fun fetch_items_loop :: "session \<Rightarrow> (32 word \<times> MessageDataItem list) list \<Rightarrow> session go" where
  "fetch_items_loop s [] = Returns s"
| "fetch_items_loop s ((seqNum, data) # rest) =
     (let s1 = fst (sendf s (''* '' @ itoa (uint seqNum) @ '' FETCH ('')) in
        case fetch_data_loop s1 True data of
          Panics \<Rightarrow> Panics
        | Returns s2 \<Rightarrow> fetch_items_loop (fst (sendlinef s2 '')'')) rest)"

text \<open>
  \<open>UID FETCH\<close>. After \<open>args = args[1:]\<close> the source reads \<open>args[0]\<close>, which panics when
  nothing follows \<open>FETCH\<close>; \<open>parseMessageDataItemNames\<close> may panic; and
  \<open>s.mailbox.FetchMessagesByUID\<close> panics when \<open>s.mailbox\<close> is the nil interface value.
\<close>

definition cmd_uid_fetch :: "session \<Rightarrow> string \<Rightarrow> string list \<Rightarrow> outcome" where
  "cmd_uid_fetch s tag args =
     (case args of
        [] \<Rightarrow> Panic
      | a0 # rest \<Rightarrow>
          (let rangeSet = parseRangeSet a0 in
           case parseMessageDataItemNames (Join rest '' '') of
             Panics \<Rightarrow> Panic
           | Returns (itemNames, err) \<Rightarrow>
               if err \<noteq> None then Continue (fst (sendlinef s (tag @ '' BAD invalid item names'')))
               else (case rangeSet of
                 None \<Rightarrow> Continue (fst (sendlinef s (tag @ '' BAD invalid range'')))
               | Some ranges \<Rightarrow>
                   (case mailbox s of
                      None \<Rightarrow> Panic
                    | Some m \<Rightarrow>
                        (case FetchMessagesByUID m ranges itemNames of
                           (items, Some e) \<Rightarrow>
                             Continue (fst (sendlinef s (tag @ '' BAD internal error'')))
                         | (items, None) \<Rightarrow>
                             (case fetch_items_loop s items of
                                Panics \<Rightarrow> Panic
                              | Returns s1 \<Rightarrow>
                                  Continue (fst (sendlinef s1 (tag @ '' OK Success'')))))))))"

definition cmd_uid :: "session \<Rightarrow> string \<Rightarrow> string list \<Rightarrow> outcome" where
  "cmd_uid s tag args =
     (if length args < 1 then Continue (fst (sendlinef s (tag @ '' BAD Missing command'')))
      else
        (let cmd = ToLower (args ! 0); args' = drop 1 args in
           if cmd = ''fetch'' then cmd_uid_fetch s tag args'
           else Continue (fst (sendlinef s (tag @ '' BAD Unknown command'')))))"

text \<open>The switch on the command.\<close>

definition dispatch :: "Server \<Rightarrow> session \<Rightarrow> string \<Rightarrow> string \<Rightarrow> string list \<Rightarrow> outcome" where
  "dispatch srv s tag cmd args =
     (if cmd = ''noop'' then Continue (fst (sendlinef s (tag @ '' OK NOOP completed'')))
      else if cmd = ''capability'' then cmd_capability srv s tag
      else if cmd = ''starttls'' then cmd_starttls srv s tag
      else if cmd = ''login'' then cmd_login srv s tag
      else if cmd = ''close'' then
        Continue (fst (sendlinef s (tag @ '' OK Returned to authenticated state. (Success)'')))
      else if cmd = ''logout'' then cmd_logout s tag
      else if cmd = ''status'' then cmd_status srv s tag args
      else if cmd = ''select'' then cmd_select srv s tag args
      else if cmd = ''list'' then cmd_list s tag args
      else if cmd = ''uid'' then cmd_uid s tag args
      else Continue (fst (sendlinef s (tag @ '' BAD Unknown command''))))"

text \<open>One pass of the loop, for a line that \<open>ReadSlice\<close> returned.\<close>

definition handle :: "Server \<Rightarrow> session \<Rightarrow> string \<Rightarrow> outcome" where
  "handle srv s sl =
     (case parse_line sl of
        None \<Rightarrow> Return s
      | Some (tag, cmd, args) \<Rightarrow> dispatch srv s tag cmd args)"

text \<open>
  The loop, over the lines that the successive calls of \<open>ReadSlice\<close> return; at the end of
  the list the read fails (the peer closed the connection, a deadline passed, the line
  was longer than the buffer) and \<open>serve\<close> returns.
\<close>

fun serve_loop :: "Server \<Rightarrow> session \<Rightarrow> string list \<Rightarrow> outcome" where
  "serve_loop srv s [] = Return s"
| "serve_loop srv s (sl # sls) =
     (case handle srv s sl of
        Continue s' \<Rightarrow> serve_loop srv s' sls
      | Return s' \<Rightarrow> Return s'
      | Panic \<Rightarrow> Panic)"

definition greeting :: string where
  "greeting = ''* OK [CAPABILITY IMAP4rev1 AUTH=LOGIN] hostname.com IMAP4rev1 2004.350 at Sun, 8 Aug 2004 13:51:21 -0500 (CDT)''"

definition serve :: "Server \<Rightarrow> session \<Rightarrow> string list \<Rightarrow> outcome" where
  "serve srv s sls = serve_loop srv (fst (sendlinef s greeting)) sls"

text \<open>
  \<open>newSession\<close> and the assignment \<open>sess.secure = secure\<close> of \<open>Server.Serve\<close>: the session
  that \<open>serve\<close> starts from, on a connection whose writer and handshake behave as given.
\<close>

definition newSession :: "bool \<Rightarrow> bool \<Rightarrow> bool \<Rightarrow> session" where
  "newSession sec wfl hsk =
     \<lparr>secure = sec, authenticated = False, mailbox = None, out = [], wfail = wfl,
      handshake_ok = hsk\<rparr>"

section \<open>A server and its mailboxes, for running the model\<close>

text \<open>
  A backend with three names: \<open>INBOX\<close> is a mailbox whose methods succeed (its \<open>Info\<close> is
  the one of the specification's end-to-end example), \<open>broken\<close> is a mailbox whose methods
  return an error, and for \<open>offline\<close> the backend itself returns an error that is not
  \<open>ErrUnknownMailbox\<close>. Any other name is unknown. With an error the backend returns the
  nil mailbox, and a method that fails returns the zero value with its error.
\<close>

definition inbox :: Mailbox where
  "inbox =
     \<lparr>Info = (\<lparr>NextUid = 2, UidValidity = 3, Exists = 0, Recent = 0, Unseen = 0\<rparr>, None),
      FetchMessagesByUID = (\<lambda>ranges names. ([], None))\<rparr>"

definition broken :: Mailbox where
  "broken =
     \<lparr>Info = (\<lparr>NextUid = 0, UidValidity = 0, Exists = 0, Recent = 0, Unseen = 0\<rparr>,
              Some (OtherError ''disk failure'')),
      FetchMessagesByUID = (\<lambda>ranges names. ([], Some (OtherError ''disk failure'')))\<rparr>"

definition example_backend :: "string \<Rightarrow> Mailbox option \<times> error option" where
  "example_backend n =
     (if n = ''INBOX'' then (Some inbox, None)
      else if n = ''broken'' then (Some broken, None)
      else if n = ''offline'' then (None, Some (OtherError ''backend offline''))
      else (None, Some ErrUnknownMailbox))"

text \<open>TLS material configured and login over an insecure connection not allowed.\<close>

definition example_server :: Server where
  "example_server =
     \<lparr>TlsConfig = Some (TlsMaterial ''server.pem''), InsecureLogin = False,
      Backend = example_backend\<rparr>"

text \<open>The same without TLS material.\<close>

definition plain_server :: Server where
  "plain_server = \<lparr>TlsConfig = None, InsecureLogin = False, Backend = example_backend\<rparr>"

section \<open>Predicates for stating the properties\<close>

text \<open>
  The specification's words for a token of a range set, to be compared with
  \<open>parseRangeSet\<close>: a number is a non-empty string of decimal digits whose value fits 32
  bits; a token is bad when it is empty, has more than one colon, has a start that is
  not a number, or has an end that is neither \<open>*\<close> nor a number; and a good token \<open>n\<close>,
  \<open>a:b\<close> or \<open>a:*\<close> stands for the range \<open>{n,0,false}\<close>, \<open>{a,b,false}\<close> or \<open>{a,0,true}\<close>.
\<close>

definition uint32_numeral :: "string \<Rightarrow> bool" where
  "uint32_numeral s = (s \<noteq> [] \<and> list_all is_digit s \<and> decimal s \<le> 4294967295)"

definition bad_token :: "string \<Rightarrow> bool" where
  "bad_token t =
     (let p = Split t (CHR '':'') in
        t = [] \<or> length p > 2 \<or> \<not> uint32_numeral (p ! 0)
        \<or> (length p = 2 \<and> p ! 1 \<noteq> ''*'' \<and> \<not> uint32_numeral (p ! 1)))"

definition range_of_token :: "string \<Rightarrow> Range" where
  "range_of_token t =
     (let p = Split t (CHR '':'') in
        if length p = 1 then \<lparr>Start = of_int (decimal (p ! 0)), End = 0, Infinite = False\<rparr>
        else if p ! 1 = ''*'' then \<lparr>Start = of_int (decimal (p ! 0)), End = 0, Infinite = True\<rparr>
        else \<lparr>Start = of_int (decimal (p ! 0)), End = of_int (decimal (p ! 1)), Infinite = False\<rparr>)"

text \<open>A property of the session that a pass of the loop leaves behind, if it leaves one.\<close>

definition after :: "(session \<Rightarrow> bool) \<Rightarrow> outcome \<Rightarrow> bool" where
  "after P oc = (case oc of Continue s \<Rightarrow> P s | Return s \<Rightarrow> P s | Panic \<Rightarrow> True)"

section \<open>The search for matches ends at or after its position\<close>

lemma star_rests_length: "x \<in> set (star_rests P s) \<Longrightarrow> length x \<le> length s"
  by (induction s) (auto split: if_splits)

lemma rmatch_length:
  "(rest, caps') \<in> set (rmatch r (s, caps)) \<Longrightarrow> length rest \<le> length s"
proof (induction r arbitrary: s caps rest caps')
  case (Seq a b)
  then obtain mid capsm where
    "(mid, capsm) \<in> set (rmatch a (s, caps))" "(rest, caps') \<in> set (rmatch b (mid, capsm))"
    by auto
  with Seq.IH show ?case by (meson le_trans)
next
  case (Star P)
  then show ?case by (auto dest: star_rests_length)
next
  case (Plus P)
  then show ?case by (auto split: list.splits if_splits dest!: star_rests_length)
qed (auto split: list.splits if_splits)

lemma match_here_length:
  assumes "match_here k r s = Some (rest, caps)"
  shows "length rest \<le> length s"
proof -
  from assms obtain caps0 ms where "rmatch r (s, replicate k []) = (rest, caps0) # ms"
    unfolding match_here_def by (auto split: list.splits)
  then have "(rest, caps0) \<in> set (rmatch r (s, replicate k []))"
    by simp
  then show ?thesis by (rule rmatch_length)
qed

lemma find_first_length: "find_first k r s = Some (rest, caps) \<Longrightarrow> length rest \<le> length s"
proof (induction s)
  case Nil
  then show ?case by (auto dest: match_here_length)
next
  case (Cons c cs)
  show ?case
  proof (cases "match_here k r (c # cs)")
    case None
    with Cons show ?thesis by auto
  next
    case (Some m)
    with Cons.prems have "match_here k r (c # cs) = Some (rest, caps)" by simp
    then show ?thesis by (rule match_here_length)
  qed
qed

lemma ends_at_position:
  "find_first k r s = Some (rest, caps) \<Longrightarrow> (\<not> length rest < length s) = (length rest = length s)"
  by (auto dest: find_first_length)

section \<open>Evaluating the string functions\<close>

lemmas str_defs = TrimSpace_def ToLower_def ToUpper_def lower_char_def upper_char_def is_upper_def
  is_lower_def is_space_def is_digit_def char_of_eq_iff CRLF_def

section \<open>Range sets: the parser against the grammar\<close>

lemma Split_nonempty: "Split s sep \<noteq> []"
  by (induction s) (auto split: list.splits)

lemma digit_val_nonneg: "is_digit c \<Longrightarrow> 0 \<le> digit_val c"
  by (simp add: is_digit_def digit_val_def)

lemma foldl_decimal_mono:
  "list_all is_digit cs \<Longrightarrow> 0 \<le> n \<Longrightarrow> n \<le> foldl (\<lambda>n c. n * 10 + digit_val c) n cs"
proof (induction cs arbitrary: n)
  case Nil
  then show ?case by simp
next
  case (Cons c cs)
  then have d: "0 \<le> digit_val c" by (simp add: digit_val_nonneg)
  with Cons.prems have "n \<le> n * 10 + digit_val c" by simp
  moreover have "n * 10 + digit_val c \<le> foldl (\<lambda>n c. n * 10 + digit_val c) (n * 10 + digit_val c) cs"
    using Cons d by (intro Cons.IH) auto
  ultimately show ?case by simp
qed

lemma parse_uint_loop_eq:
  "0 \<le> n \<Longrightarrow> n \<le> 4294967295 \<Longrightarrow> parse_uint_loop n cs =
     (if list_all is_digit cs \<and> foldl (\<lambda>n c. n * 10 + digit_val c) n cs \<le> 4294967295
      then Some (foldl (\<lambda>n c. n * 10 + digit_val c) n cs) else None)"
proof (induction cs arbitrary: n)
  case Nil
  then show ?case by simp
next
  case (Cons c cs)
  show ?case
  proof (cases "is_digit c")
    case False
    then show ?thesis by simp
  next
    case True
    then have d: "0 \<le> digit_val c" by (rule digit_val_nonneg)
    with Cons.prems have n': "0 \<le> n * 10 + digit_val c" by simp
    show ?thesis
    proof (cases "n * 10 + digit_val c > 4294967295")
      case big: True
      have "list_all is_digit cs \<Longrightarrow>
            n * 10 + digit_val c \<le> foldl (\<lambda>n c. n * 10 + digit_val c) (n * 10 + digit_val c) cs"
        using n' by (simp add: foldl_decimal_mono)
      with big True show ?thesis by auto
    next
      case False
      then have "n * 10 + digit_val c \<le> 4294967295" by simp
      from Cons.IH [OF n' this] True False show ?thesis by simp
    qed
  qed
qed

lemma ParseUint32_eq:
  "ParseUint32 s = (if uint32_numeral s then Some (decimal s) else None)"
  by (simp add: ParseUint32_def uint32_numeral_def decimal_def parse_uint_loop_eq)

lemma parseRangeSet_loop_eq:
  "parseRangeSet_loop acc toks =
     (if list_all (\<lambda>t. \<not> bad_token t) toks then Some (acc @ map range_of_token toks) else None)"
proof (induction toks arbitrary: acc)
  case Nil
  then show ?case by simp
next
  case (Cons t toks)
  obtain p0 ps where p: "Split t (CHR '':'') = p0 # ps"
    using Split_nonempty by (cases "Split t (CHR '':'')") auto
  show ?case
  proof (cases "bad_token t")
    case True
    then show ?thesis
      using p by (auto simp: bad_token_def Let_def ParseUint32_eq split: option.splits)
  next
    case False
    then show ?thesis
      using p Cons.IH
      by (cases ps) (auto simp: bad_token_def range_of_token_def Let_def ParseUint32_eq)
  qed
qed

lemma Split_no_sep: "sep \<notin> set s \<Longrightarrow> Split s sep = [s]"
  by (induction s) auto

lemma Split_at_sep: "sep \<notin> set a \<Longrightarrow> Split (a @ sep # b) sep = a # Split b sep"
  by (induction a) auto

lemma numeral_no_colon: "uint32_numeral a \<Longrightarrow> CHR '':'' \<notin> set a"
  by (auto simp: uint32_numeral_def list_all_iff is_digit_def)

lemma numeral_not_star: "uint32_numeral b \<Longrightarrow> b \<noteq> ''*''"
  by (auto simp: uint32_numeral_def is_digit_def)

lemma token_shapes:
  assumes a: "uint32_numeral a" and b: "uint32_numeral b"
  shows "\<not> bad_token a \<and>
     range_of_token a = \<lparr>Start = of_int (decimal a), End = 0, Infinite = False\<rparr> \<and>
     \<not> bad_token (a @ '':'' @ b) \<and>
     range_of_token (a @ '':'' @ b) =
       \<lparr>Start = of_int (decimal a), End = of_int (decimal b), Infinite = False\<rparr> \<and>
     \<not> bad_token (a @ '':*'') \<and>
     range_of_token (a @ '':*'') = \<lparr>Start = of_int (decimal a), End = 0, Infinite = True\<rparr>"
proof -
  have s1: "Split a (CHR '':'') = [a]"
    using a by (simp add: Split_no_sep numeral_no_colon)
  have s2: "Split (a @ '':'' @ b) (CHR '':'') = [a, b]"
    using a b by (simp add: Split_at_sep Split_no_sep numeral_no_colon)
  have s3: "Split (a @ '':*'') (CHR '':'') = [a, ''*'']"
    using a by (simp add: Split_at_sep numeral_no_colon)
  have ne: "a \<noteq> []"
    using a by (simp add: uint32_numeral_def)
  show ?thesis
    using a b ne numeral_not_star [OF b]
    by (simp add: bad_token_def range_of_token_def s1 s2 s3 del: append.simps)
qed

text \<open>
  Claim C6. \<open>parseRangeSet\<close> is all-or-nothing and keeps the order of its input: when
  some comma-separated token is bad (empty, more than one colon, a start that is not a
  number, an end that is neither \<open>*\<close> nor a number) the result is the nil slice; when
  every token is good the result has one range per token, in the order of the input;
  and the range of a good token \<open>n\<close> is \<open>{n,0,false}\<close>, of \<open>a:b\<close> is \<open>{a,b,false}\<close> and of
  \<open>a:*\<close> is \<open>{a,0,true}\<close>.
\<close>

theorem parseRangeSet_all_or_nothing:
  "((\<exists>t \<in> set (Split rs (CHR '','')). bad_token t) \<longrightarrow> parseRangeSet rs = None) \<and>
   ((\<forall>t \<in> set (Split rs (CHR '','')). \<not> bad_token t) \<longrightarrow>
      parseRangeSet rs = Some (map range_of_token (Split rs (CHR '','')))) \<and>
   (uint32_numeral a \<and> uint32_numeral b \<longrightarrow>
      \<not> bad_token a \<and>
      range_of_token a = \<lparr>Start = of_int (decimal a), End = 0, Infinite = False\<rparr> \<and>
      \<not> bad_token (a @ '':'' @ b) \<and>
      range_of_token (a @ '':'' @ b) =
        \<lparr>Start = of_int (decimal a), End = of_int (decimal b), Infinite = False\<rparr> \<and>
      \<not> bad_token (a @ '':*'') \<and>
      range_of_token (a @ '':*'') = \<lparr>Start = of_int (decimal a), End = 0, Infinite = True\<rparr>)"
proof (intro conjI impI)
  assume "\<exists>t \<in> set (Split rs (CHR '','')). bad_token t"
  then show "parseRangeSet rs = None"
    by (auto simp: parseRangeSet_def parseRangeSet_loop_eq list_all_iff)
next
  assume "\<forall>t \<in> set (Split rs (CHR '','')). \<not> bad_token t"
  then show "parseRangeSet rs = Some (map range_of_token (Split rs (CHR '','')))"
    by (auto simp: parseRangeSet_def parseRangeSet_loop_eq list_all_iff)
qed (use token_shapes [of a b] in blast)+

theorem parseRangeSet_all_or_nothing_witness:
  "parseRangeSet ''1,2:4,5:*'' =
     Some [\<lparr>Start = 1, End = 0, Infinite = False\<rparr>, \<lparr>Start = 2, End = 4, Infinite = False\<rparr>,
           \<lparr>Start = 5, End = 0, Infinite = True\<rparr>] \<and>
   parseRangeSet ''abc'' = None \<and> parseRangeSet ''1,,2'' = None \<and>
   parseRangeSet ''1:2:3'' = None \<and> parseRangeSet ''1:x'' = None \<and>
   uint32_numeral ''2'' \<and> uint32_numeral ''4'' \<and>
   range_of_token (''2'' @ '':'' @ ''4'') =
     \<lparr>Start = of_int (decimal ''2''), End = of_int (decimal ''4''), Infinite = False\<rparr>"
proof -
  have n2: "uint32_numeral ''2''" and n4: "uint32_numeral ''4''"
    by (simp_all add: uint32_numeral_def is_digit_def decimal_def digit_val_def)
  have shape: "range_of_token (''2'' @ '':'' @ ''4'') =
     \<lparr>Start = of_int (decimal ''2''), End = of_int (decimal ''4''), Infinite = False\<rparr>"
    using parseRangeSet_all_or_nothing [of _ "''2''" "''4''"] n2 n4 by blast
  have good: "\<forall>t \<in> set (Split ''1,2:4,5:*'' (CHR '','')). \<not> bad_token t"
    by (simp add: bad_token_def uint32_numeral_def is_digit_def decimal_def digit_val_def)
  have bad1: "\<exists>t \<in> set (Split ''abc'' (CHR '','')). bad_token t"
    by (simp add: bad_token_def uint32_numeral_def is_digit_def)
  have bad2: "\<exists>t \<in> set (Split ''1,,2'' (CHR '','')). bad_token t"
    by (simp add: bad_token_def)
  have bad3: "\<exists>t \<in> set (Split ''1:2:3'' (CHR '','')). bad_token t"
    by (simp add: bad_token_def)
  have bad4: "\<exists>t \<in> set (Split ''1:x'' (CHR '','')). bad_token t"
    by (simp add: bad_token_def uint32_numeral_def is_digit_def)
  have "parseRangeSet ''1,2:4,5:*'' = Some (map range_of_token (Split ''1,2:4,5:*'' (CHR '','')))"
    using parseRangeSet_all_or_nothing [of "''1,2:4,5:*''"] good by blast
  then have "parseRangeSet ''1,2:4,5:*'' =
     Some [\<lparr>Start = 1, End = 0, Infinite = False\<rparr>, \<lparr>Start = 2, End = 4, Infinite = False\<rparr>,
           \<lparr>Start = 5, End = 0, Infinite = True\<rparr>]"
    by (simp add: range_of_token_def decimal_def digit_val_def)
  moreover have "parseRangeSet ''abc'' = None"
    using parseRangeSet_all_or_nothing [of "''abc''"] bad1 by blast
  moreover have "parseRangeSet ''1,,2'' = None"
    using parseRangeSet_all_or_nothing [of "''1,,2''"] bad2 by blast
  moreover have "parseRangeSet ''1:2:3'' = None"
    using parseRangeSet_all_or_nothing [of "''1:2:3''"] bad3 by blast
  moreover have "parseRangeSet ''1:x'' = None"
    using parseRangeSet_all_or_nothing [of "''1:x''"] bad4 by blast
  ultimately show ?thesis using n2 n4 shape by simp
qed

section \<open>Running the command loop\<close>

lemma handle_parsed:
  "parse_line sl = Some (tag, cmd, args) \<Longrightarrow> handle srv s sl = dispatch srv s tag cmd args"
  by (simp add: handle_def)

lemma dispatch_noop:
  "dispatch srv s tag ''noop'' args = Continue (s\<lparr>out := out s @ [tag @ '' OK NOOP completed'' @ CRLF]\<rparr>)"
  by (simp add: dispatch_def sendlinef_def sendf_def)

lemma dispatch_capability: "dispatch srv s tag ''capability'' args = cmd_capability srv s tag"
  by (simp add: dispatch_def)

lemma dispatch_starttls: "dispatch srv s tag ''starttls'' args = cmd_starttls srv s tag"
  by (simp add: dispatch_def)

lemma dispatch_logout: "dispatch srv s tag ''logout'' args = cmd_logout s tag"
  by (simp add: dispatch_def)

lemma dispatch_select: "dispatch srv s tag ''select'' args = cmd_select srv s tag args"
  by (simp add: dispatch_def)

lemma dispatch_status: "dispatch srv s tag ''status'' args = cmd_status srv s tag args"
  by (simp add: dispatch_def)

lemma dispatch_uid: "dispatch srv s tag ''uid'' args = cmd_uid s tag args"
  by (simp add: dispatch_def)

lemma select_error:
  "Backend srv n = (mb, Some e) \<Longrightarrow>
   cmd_select srv s tag (n # args) =
     Continue (s\<lparr>mailbox := mb, out := out s @
       [tag @ (if e = ErrUnknownMailbox then '' NO unknown mailbox'' else '' NO internal error'') @ CRLF]\<rparr>)"
  unfolding cmd_select_def by (simp add: sendlinef_def sendf_def)

lemma select_info_error:
  "Backend srv n = (Some m, None) \<Longrightarrow> Info m = (info, Some e) \<Longrightarrow>
   cmd_select srv s tag (n # args) =
     Continue (s\<lparr>mailbox := Some m, out := out s @ [tag @ '' NO internal error'' @ CRLF]\<rparr>)"
  unfolding cmd_select_def by (simp add: sendlinef_def sendf_def)

lemma status_error:
  "Backend srv n = (mb, Some e) \<Longrightarrow>
   cmd_status srv s tag (n # a # args) =
     Continue (s\<lparr>out := out s @
       [tag @ (if e = ErrUnknownMailbox then '' NO unknown mailbox'' else '' NO internal error'') @ CRLF]\<rparr>)"
  unfolding cmd_status_def by (simp add: sendlinef_def sendf_def)

lemma status_info_error:
  "Backend srv n = (Some m, None) \<Longrightarrow> Info m = (info, Some e) \<Longrightarrow>
   cmd_status srv s tag (n # a # args) =
     Continue (s\<lparr>out := out s @ [tag @ '' NO internal error'' @ CRLF]\<rparr>)"
  unfolding cmd_status_def by (simp add: sendlinef_def sendf_def)

lemma uid_fetch_error:
  "parseRangeSet a0 = Some ranges \<Longrightarrow>
   parseMessageDataItemNames (Join rest '' '') = Returns (names, None) \<Longrightarrow>
   mailbox s = Some m \<Longrightarrow> FetchMessagesByUID m ranges names = (items, Some e) \<Longrightarrow>
   cmd_uid s tag (''FETCH'' # a0 # rest) =
     Continue (s\<lparr>out := out s @ [tag @ '' BAD internal error'' @ CRLF]\<rparr>)"
  unfolding cmd_uid_def cmd_uid_fetch_def by (simp add: sendlinef_def sendf_def str_defs)

lemma uid_fetch_no_mailbox:
  "parseRangeSet a0 = Some ranges \<Longrightarrow>
   parseMessageDataItemNames (Join rest '' '') = Returns (names, None) \<Longrightarrow>
   mailbox s = None \<Longrightarrow>
   cmd_uid s tag (''FETCH'' # a0 # rest) = Panic"
  unfolding cmd_uid_def cmd_uid_fetch_def by (simp add: str_defs)

lemma uid_fetch_bad_names:
  "parseMessageDataItemNames (Join rest '' '') = Returns (names, Some e) \<Longrightarrow>
   cmd_uid s tag (''FETCH'' # a0 # rest) =
     Continue (s\<lparr>out := out s @ [tag @ '' BAD invalid item names'' @ CRLF]\<rparr>)"
  unfolding cmd_uid_def cmd_uid_fetch_def by (simp add: sendlinef_def sendf_def str_defs)

lemma uid_fetch_nothing_found:
  "parseRangeSet a0 = Some ranges \<Longrightarrow>
   parseMessageDataItemNames (Join rest '' '') = Returns (names, None) \<Longrightarrow>
   mailbox s = Some m \<Longrightarrow> FetchMessagesByUID m ranges names = ([], None) \<Longrightarrow>
   cmd_uid s tag (''FETCH'' # a0 # rest) =
     Continue (s\<lparr>out := out s @ [tag @ '' OK Success'' @ CRLF]\<rparr>)"
  unfolding cmd_uid_def cmd_uid_fetch_def by (simp add: sendlinef_def sendf_def str_defs)

lemma backend_nosuch: "Backend example_server ''nosuch'' = (None, Some ErrUnknownMailbox)"
  by (simp add: example_server_def example_backend_def)

lemma backend_offline:
  "Backend example_server ''offline'' = (None, Some (OtherError ''backend offline''))"
  by (simp add: example_server_def example_backend_def)

lemma backend_broken: "Backend example_server ''broken'' = (Some broken, None)"
  by (simp add: example_server_def example_backend_def)

lemma Info_broken:
  "Info broken = (\<lparr>NextUid = 0, UidValidity = 0, Exists = 0, Recent = 0, Unseen = 0\<rparr>,
                  Some (OtherError ''disk failure''))"
  by (simp add: broken_def)

lemma Fetch_broken: "FetchMessagesByUID broken ranges names = ([], Some (OtherError ''disk failure''))"
  by (simp add: broken_def)

lemma parse_names_UID: "parseMessageDataItemNames ''UID'' = Returns (Some [named ''UID''], None)"
  by code_simp

lemma parse_names_UID_list: "parseMessageDataItemNames ''(UID)'' = Returns (Some [named ''UID''], None)"
  by code_simp

lemma parse_range_1: "parseRangeSet ''1'' = Some [\<lparr>Start = 1, End = 0, Infinite = False\<rparr>]"
  by code_simp

lemma parse_range_1_star: "parseRangeSet ''1:*'' = Some [\<lparr>Start = 1, End = 0, Infinite = True\<rparr>]"
  by code_simp

text \<open>
  Claim C1 (a \<open>SELECT\<close> whose lookup fails answers NO and keeps the selected mailbox; only
  a SELECT that succeeds in full replaces it), on the code: with \<open>INBOX\<close> selected, a
  \<open>SELECT\<close> of an unknown mailbox answers \<open>NO unknown mailbox\<close> and leaves \<open>s.mailbox\<close> nil,
  the value the backend returned with its error; the same after a backend error; and a
  \<open>SELECT\<close> of a mailbox whose \<open>Info\<close> fails answers \<open>NO internal error\<close> and leaves that
  mailbox selected.
\<close>

theorem select_failure_replaces_mailbox:
  "handle example_server (s\<lparr>mailbox := Some inbox\<rparr>) (''a2 SELECT nosuch'' @ CRLF) =
     Continue (s\<lparr>mailbox := None, out := out s @ [''a2 NO unknown mailbox'' @ CRLF]\<rparr>) \<and>
   handle example_server (s\<lparr>mailbox := Some inbox\<rparr>) (''a3 SELECT offline'' @ CRLF) =
     Continue (s\<lparr>mailbox := None, out := out s @ [''a3 NO internal error'' @ CRLF]\<rparr>) \<and>
   handle example_server (s\<lparr>mailbox := Some inbox\<rparr>) (''a4 SELECT broken'' @ CRLF) =
     Continue (s\<lparr>mailbox := Some broken, out := out s @ [''a4 NO internal error'' @ CRLF]\<rparr>)"
proof -
  have p2: "parse_line (''a2 SELECT nosuch'' @ CRLF) = Some (''a2'', ''select'', [''nosuch''])"
    by (simp add: parse_line_def str_defs)
  have p3: "parse_line (''a3 SELECT offline'' @ CRLF) = Some (''a3'', ''select'', [''offline''])"
    by (simp add: parse_line_def str_defs)
  have p4: "parse_line (''a4 SELECT broken'' @ CRLF) = Some (''a4'', ''select'', [''broken''])"
    by (simp add: parse_line_def str_defs)
  show ?thesis
    unfolding handle_parsed [OF p2] handle_parsed [OF p3] handle_parsed [OF p4]
      dispatch_select select_error [OF backend_nosuch] select_error [OF backend_offline]
      select_info_error [OF backend_broken Info_broken]
    by simp
qed

text \<open>
  Claim C2 (after the farewell and the tagged OK of \<open>LOGOUT\<close> the loop ends and reads no
  further line), on the code: the pass for \<open>LOGOUT\<close> ends with control back at the head of
  the loop, and a \<open>NOOP\<close> that follows on the connection is read and answered.
\<close>

theorem logout_reads_on:
  "handle srv s (''a1 LOGOUT'' @ CRLF) =
     Continue (s\<lparr>out := out s @ [''* BYE LOGOUT Requested'' @ CRLF,
                                  ''a1 OK 0 good day (Success)'' @ CRLF]\<rparr>) \<and>
   serve_loop srv s [''a1 LOGOUT'' @ CRLF, ''a2 NOOP'' @ CRLF] =
     Return (s\<lparr>out := out s @ [''* BYE LOGOUT Requested'' @ CRLF,
                                ''a1 OK 0 good day (Success)'' @ CRLF,
                                ''a2 OK NOOP completed'' @ CRLF]\<rparr>)"
proof -
  have p1: "parse_line (''a1 LOGOUT'' @ CRLF) = Some (''a1'', ''logout'', [])"
    by (simp add: parse_line_def str_defs)
  have p2: "parse_line (''a2 NOOP'' @ CRLF) = Some (''a2'', ''noop'', [])"
    by (simp add: parse_line_def str_defs)
  have l: "cmd_logout s ''a1'' =
      Continue (s\<lparr>out := out s @ [''* BYE LOGOUT Requested'' @ CRLF,
                                   ''a1 OK 0 good day (Success)'' @ CRLF]\<rparr>)"
    by (simp add: cmd_logout_def sendlinef_def sendf_def itoa_def udec.simps)
  have h: "handle srv s (''a1 LOGOUT'' @ CRLF) =
      Continue (s\<lparr>out := out s @ [''* BYE LOGOUT Requested'' @ CRLF,
                                   ''a1 OK 0 good day (Success)'' @ CRLF]\<rparr>)"
    unfolding handle_parsed [OF p1] dispatch_logout l by simp
  have n: "handle srv s' (''a2 NOOP'' @ CRLF) =
      Continue (s'\<lparr>out := out s' @ [''a2 OK NOOP completed'' @ CRLF]\<rparr>)" for s'
    unfolding handle_parsed [OF p2] dispatch_noop by simp
  have "serve_loop srv s [''a1 LOGOUT'' @ CRLF, ''a2 NOOP'' @ CRLF] =
     Return (s\<lparr>out := out s @ [''* BYE LOGOUT Requested'' @ CRLF,
                                ''a1 OK 0 good day (Success)'' @ CRLF,
                                ''a2 OK NOOP completed'' @ CRLF]\<rparr>)"
    unfolding serve_loop.simps h outcome.case n by simp
  with h show ?thesis by (rule conjI)
qed

text \<open>
  Claim C3 (every casing of a bare \<open>FAST\<close>, \<open>ALL\<close> or \<open>FULL\<close> gives the same fixed item
  list), on the code: the upper-case tokens give the three lists, and any other casing
  is not found in the table of macros, falls through to the item pattern and is refused
  as an invalid item name.
\<close>

theorem macro_lookup_is_case_sensitive:
  "parseMessageDataItemNames ''FAST'' =
     Returns (Some [named ''FLAGS'', named ''INTERNALDATE'', named ''RFC822.SIZE''], None) \<and>
   parseMessageDataItemNames ''ALL'' =
     Returns (Some [named ''FLAGS'', named ''INTERNALDATE'', named ''RFC822.SIZE'',
                    named ''ENVELOPE''], None) \<and>
   parseMessageDataItemNames ''FULL'' =
     Returns (Some [named ''FLAGS'', named ''INTERNALDATE'', named ''RFC822.SIZE'',
                    named ''ENVELOPE'', named ''BODY''], None) \<and>
   parseMessageDataItemNames ''fast'' = Returns (Some [], Some (ErrInvalidDataItem ''fast'')) \<and>
   parseMessageDataItemNames ''Fast'' = Returns (Some [], Some (ErrInvalidDataItem ''Fast'')) \<and>
   parseMessageDataItemNames ''all'' = Returns (Some [], Some (ErrInvalidDataItem ''all'')) \<and>
   parseMessageDataItemNames ''full'' = Returns (Some [], Some (ErrInvalidDataItem ''full''))"
  by code_simp

text \<open>
  Claim C4 (an internal error of a collaborator is answered with a tagged NO and a
  generic message, never BAD, and the session goes on), on the code: \<open>STATUS\<close> and
  \<open>SELECT\<close> answer \<open>NO internal error\<close> for an error of the backend and for an error of
  \<open>Info\<close>, and \<open>UID FETCH\<close> answers \<open>BAD internal error\<close> for an error of
  \<open>FetchMessagesByUID\<close>; in each case the loop goes on.
\<close>

theorem fetch_error_is_answered_BAD:
  "handle example_server s (''a1 STATUS offline (MESSAGES)'' @ CRLF) =
     Continue (s\<lparr>out := out s @ [''a1 NO internal error'' @ CRLF]\<rparr>) \<and>
   handle example_server s (''a2 STATUS broken (MESSAGES)'' @ CRLF) =
     Continue (s\<lparr>out := out s @ [''a2 NO internal error'' @ CRLF]\<rparr>) \<and>
   handle example_server s (''a3 SELECT offline'' @ CRLF) =
     Continue (s\<lparr>mailbox := None, out := out s @ [''a3 NO internal error'' @ CRLF]\<rparr>) \<and>
   handle example_server s (''a4 SELECT broken'' @ CRLF) =
     Continue (s\<lparr>mailbox := Some broken, out := out s @ [''a4 NO internal error'' @ CRLF]\<rparr>) \<and>
   handle example_server (s\<lparr>mailbox := Some broken\<rparr>) (''a5 UID FETCH 1:* (UID)'' @ CRLF) =
     Continue (s\<lparr>mailbox := Some broken, out := out s @ [''a5 BAD internal error'' @ CRLF]\<rparr>)"
proof -
  have p1: "parse_line (''a1 STATUS offline (MESSAGES)'' @ CRLF) =
      Some (''a1'', ''status'', [''offline'', ''(MESSAGES)''])"
    by (simp add: parse_line_def str_defs)
  have p2: "parse_line (''a2 STATUS broken (MESSAGES)'' @ CRLF) =
      Some (''a2'', ''status'', [''broken'', ''(MESSAGES)''])"
    by (simp add: parse_line_def str_defs)
  have p3: "parse_line (''a3 SELECT offline'' @ CRLF) = Some (''a3'', ''select'', [''offline''])"
    by (simp add: parse_line_def str_defs)
  have p4: "parse_line (''a4 SELECT broken'' @ CRLF) = Some (''a4'', ''select'', [''broken''])"
    by (simp add: parse_line_def str_defs)
  have p5: "parse_line (''a5 UID FETCH 1:* (UID)'' @ CRLF) =
      Some (''a5'', ''uid'', [''FETCH'', ''1:*'', ''(UID)''])"
    by (simp add: parse_line_def str_defs)
  have n: "parseMessageDataItemNames (Join [''(UID)''] '' '') = Returns (Some [named ''UID''], None)"
    using parse_names_UID_list by simp
  have m: "mailbox (s\<lparr>mailbox := Some broken\<rparr>) = Some broken"
    by simp
  show ?thesis
    unfolding handle_parsed [OF p1] handle_parsed [OF p2] handle_parsed [OF p3]
      handle_parsed [OF p4] handle_parsed [OF p5] dispatch_status dispatch_select dispatch_uid
      status_error [OF backend_offline] status_info_error [OF backend_broken Info_broken]
      select_error [OF backend_offline] select_info_error [OF backend_broken Info_broken]
      uid_fetch_error [OF parse_range_1_star n m Fetch_broken]
    by simp
qed

text \<open>
  Claim C5 (the encoder succeeds on the six shapes it supports and returns an encoding
  error only for another value), on the code: each of the six shapes is written as the
  claim says, and the result of \<open>sendobject\<close> is an error for every value: the error made
  after the switch for the shapes that were written, or the writer's error for a byte
  payload.
\<close>

theorem sendobject_returns_error_always:
  "sendobject s ObjNil = (s\<lparr>out := out s @ [''NIL'']\<rparr>, Some ErrUnknownObject) \<and>
   sendobject s (ObjInt i) = (s\<lparr>out := out s @ [itoa i]\<rparr>, Some ErrUnknownObject) \<and>
   sendobject s (ObjString t) =
     (s\<lparr>out := out s @ [[dquote] @ escape_quotes t @ [dquote]]\<rparr>, Some ErrUnknownObject) \<and>
   sendobject s (ObjStrings ts) =
     (s\<lparr>out := out s @ [''('' @ Join ts '' '' @ '')'']\<rparr>, Some ErrUnknownObject) \<and>
   sendobject s (ObjTime tm) =
     (s\<lparr>out := out s @ [[dquote] @ Format_internalDate tm @ [dquote]]\<rparr>, Some ErrUnknownObject) \<and>
   sendobject s (ObjBytes b) =
     (if wfail s
      then (s\<lparr>out := out s @ [''{'' @ itoa (int (length b)) @ ''}'' @ CRLF]\<rparr>, Some WriteError)
      else (s\<lparr>out := out s @ [''{'' @ itoa (int (length b)) @ ''}'' @ CRLF, b]\<rparr>,
            Some ErrUnknownObject)) \<and>
   sendobject s ObjOther = (s, Some ErrUnknownObject) \<and>
   snd (sendobject s ob) \<noteq> None \<and>
   itoa 42 = ''42'' \<and> itoa (- 7) = ''-7'' \<and>
   escape_quotes [CHR ''a'', dquote, CHR ''b'', bslash, CHR ''c''] =
     [CHR ''a'', bslash, dquote, CHR ''b'', bslash, CHR ''c''] \<and>
   Join [''a'', ''b c'', ''d''] '' '' = ''a b c d'' \<and>
   Format_internalDate \<lparr>year = 2004, month = 8, day = 8, hour = 13, minute = 51, second = 21,
                         zone = - 18000\<rparr> = ''08-Aug-2004 13:51:21 -0500''"
proof -
  have "snd (sendobject s ob) \<noteq> None"
    by (cases ob) (simp_all add: sendobject_def sendobject_switch_def sendf_def bw_Write_def)
  moreover have "Format_internalDate \<lparr>year = 2004, month = 8, day = 8, hour = 13, minute = 51,
      second = 21, zone = - 18000\<rparr> = ''08-Aug-2004 13:51:21 -0500''"
    by (simp add: Format_internalDate_def pad_def udec.simps month_abbrev_def Let_def)
  moreover have "itoa 42 = ''42'' \<and> itoa (- 7) = ''-7''"
    by (simp add: itoa_def udec.simps)
  ultimately show ?thesis
    by (simp add: sendobject_def sendobject_switch_def sendf_def bw_Write_def escape_quotes_def
        dquote_def bslash_def)
qed

text \<open>
  Claim C10 (with no mailbox selected, also after a \<open>SELECT\<close> that failed, a well-formed
  \<open>UID FETCH\<close> gets a tagged error and \<open>FetchMessagesByUID\<close> is not called on a nil
  mailbox), on the code: with \<open>s.mailbox\<close> nil the pass for \<open>UID FETCH 1 UID\<close> panics at the
  method call, and so does the loop when the command follows a \<open>SELECT\<close> of an unknown
  mailbox.
\<close>

theorem uid_fetch_without_mailbox_panics:
  "handle srv (s\<lparr>mailbox := None\<rparr>) (''a1 UID FETCH 1 UID'' @ CRLF) = Panic \<and>
   serve_loop example_server s [''a1 SELECT nosuch'' @ CRLF, ''a2 UID FETCH 1 UID'' @ CRLF] = Panic"
proof -
  have p1: "parse_line (''a1 UID FETCH 1 UID'' @ CRLF) = Some (''a1'', ''uid'', [''FETCH'', ''1'', ''UID''])"
    by (simp add: parse_line_def str_defs)
  have p2: "parse_line (''a2 UID FETCH 1 UID'' @ CRLF) = Some (''a2'', ''uid'', [''FETCH'', ''1'', ''UID''])"
    by (simp add: parse_line_def str_defs)
  have p3: "parse_line (''a1 SELECT nosuch'' @ CRLF) = Some (''a1'', ''select'', [''nosuch''])"
    by (simp add: parse_line_def str_defs)
  have n: "parseMessageDataItemNames (Join [''UID''] '' '') = Returns (Some [named ''UID''], None)"
    using parse_names_UID by simp
  have f: "mailbox s' = None \<Longrightarrow> cmd_uid s' tag [''FETCH'', ''1'', ''UID''] = Panic" for s' tag
    by (rule uid_fetch_no_mailbox [OF parse_range_1 n])
  have h1: "handle srv (s\<lparr>mailbox := None\<rparr>) (''a1 UID FETCH 1 UID'' @ CRLF) = Panic"
    unfolding handle_parsed [OF p1] dispatch_uid by (rule f) simp
  have h2: "handle example_server (s\<lparr>mailbox := None, out := ou\<rparr>) (''a2 UID FETCH 1 UID'' @ CRLF) = Panic"
    for ou
    unfolding handle_parsed [OF p2] dispatch_uid by (rule f) simp
  have h3: "handle example_server s (''a1 SELECT nosuch'' @ CRLF) =
      Continue (s\<lparr>mailbox := None, out := out s @ [''a1 NO unknown mailbox'' @ CRLF]\<rparr>)"
    unfolding handle_parsed [OF p3] dispatch_select select_error [OF backend_nosuch] by simp
  have "serve_loop example_server s [''a1 SELECT nosuch'' @ CRLF, ''a2 UID FETCH 1 UID'' @ CRLF] = Panic"
    unfolding serve_loop.simps h3 outcome.case h2 by simp
  with h1 show ?thesis by (rule conjI)
qed


section \<open>The secure flag\<close>

lemma after_simps [simp]:
  "after P (Continue s) = P s" "after P (Return s) = P s" "after P Panic = True"
  by (simp_all add: after_def)

lemma secure_sendf [simp]: "secure (fst (sendf s t)) = secure s"
  by (simp add: sendf_def)

lemma secure_sendlinef [simp]: "secure (fst (sendlinef s t)) = secure s"
  by (simp add: sendlinef_def)

lemma secure_sendobject [simp]: "secure (fst (sendobject s ob)) = secure s"
  by (cases ob) (simp_all add: sendobject_def sendobject_switch_def sendf_def bw_Write_def)

lemma secure_status_loop [simp]: "secure (status_loop info s first its) = secure s"
  by (induction its arbitrary: s first) (simp_all add: Let_def)

lemma secure_fetch_data_loop:
  "fetch_data_loop s first vs = Returns s' \<Longrightarrow> secure s' = secure s"
  by (induction vs arbitrary: s first) (auto simp: Let_def split: go.splits)

lemma secure_fetch_items_loop:
  "fetch_items_loop s items = Returns s' \<Longrightarrow> secure s' = secure s"
proof (induction items arbitrary: s)
  case Nil
  then show ?case by simp
next
  case (Cons it items)
  obtain seqNum data where it: "it = (seqNum, data)" by (cases it)
  from Cons.prems obtain s2 where
    d: "fetch_data_loop (fst (sendf s (''* '' @ itoa (uint seqNum) @ '' FETCH (''))) True data = Returns s2"
    and r: "fetch_items_loop (fst (sendlinef s2 '')'')) items = Returns s'"
    by (auto simp: it Let_def split: go.splits)
  from Cons.IH [OF r] secure_fetch_data_loop [OF d] show ?case by simp
qed

lemma secure_cmd_capability: "secure s \<Longrightarrow> after secure (cmd_capability srv s tag)"
  by (simp add: cmd_capability_def Let_def)

lemma secure_cmd_starttls: "secure s \<Longrightarrow> after secure (cmd_starttls srv s tag)"
  by (simp add: cmd_starttls_def Let_def)

lemma secure_cmd_login: "secure s \<Longrightarrow> after secure (cmd_login srv s tag)"
  by (simp add: cmd_login_def sendlinef_def sendf_def)

lemma secure_cmd_logout: "secure s \<Longrightarrow> after secure (cmd_logout s tag)"
  by (simp add: cmd_logout_def Let_def)

lemma secure_cmd_status: "secure s \<Longrightarrow> after secure (cmd_status srv s tag args)"
  by (simp add: cmd_status_def Let_def split: prod.splits option.splits)

lemma secure_cmd_select: "secure s \<Longrightarrow> after secure (cmd_select srv s tag args)"
  by (simp add: cmd_select_def Let_def split: prod.splits option.splits)

lemma secure_cmd_list: "secure s \<Longrightarrow> after secure (cmd_list s tag args)"
  by (simp add: cmd_list_def Let_def)

lemma secure_cmd_uid_fetch: "secure s \<Longrightarrow> after secure (cmd_uid_fetch s tag args)"
  by (auto simp: cmd_uid_fetch_def Let_def dest: secure_fetch_items_loop
      split: prod.splits option.splits go.splits list.splits)

lemma secure_cmd_uid: "secure s \<Longrightarrow> after secure (cmd_uid s tag args)"
  by (simp add: cmd_uid_def Let_def secure_cmd_uid_fetch)

lemma secure_dispatch: "secure s \<Longrightarrow> after secure (dispatch srv s tag cmd args)"
  by (simp add: dispatch_def secure_cmd_capability secure_cmd_starttls secure_cmd_login
      secure_cmd_logout secure_cmd_status secure_cmd_select secure_cmd_list secure_cmd_uid)

lemma secure_handle: "secure s \<Longrightarrow> after secure (handle srv s sl)"
  by (simp add: handle_def secure_dispatch split: option.splits)

lemma secure_serve_loop: "secure s \<Longrightarrow> after secure (serve_loop srv s sls)"
proof (induction sls arbitrary: s)
  case Nil
  then show ?case by simp
next
  case (Cons sl sls)
  from Cons.prems have "after secure (handle srv s sl)" by (rule secure_handle)
  with Cons.IH show ?case by (cases "handle srv s sl") simp_all
qed

text \<open>
  Claim C7. The secure flag never goes back to false: from a secure session, the session
  after any command with any arguments, the session after any one line and the session
  at the end of any sequence of lines are secure.
  A \<open>STARTTLS\<close> on a secure session is answered \<open>NO connection already secure\<close> and changes
  nothing else in the session; a \<open>STARTTLS\<close> on an insecure session of a server without
  TLS material is answered \<open>NO TLS not configured\<close>.
\<close>

theorem secure_is_monotonic:
  "(secure s \<longrightarrow>
      (\<forall>t c as s'. dispatch srv s t c as = Continue s' \<or> dispatch srv s t c as = Return s' \<longrightarrow>
         secure s') \<and>
      (\<forall>s'. handle srv s sl = Continue s' \<or> handle srv s sl = Return s' \<longrightarrow> secure s') \<and>
      (\<forall>s'. serve_loop srv s sls = Return s' \<longrightarrow> secure s')) \<and>
   (ascii sl \<and> parse_line sl = Some (tag, ''starttls'', args) \<and> secure s \<longrightarrow>
      handle srv s sl =
        Continue (s\<lparr>out := out s @ [tag @ '' NO connection already secure'' @ CRLF]\<rparr>)) \<and>
   (ascii sl \<and> parse_line sl = Some (tag, ''starttls'', args) \<and> \<not> secure s \<and> TlsConfig srv = None \<longrightarrow>
      handle srv s sl =
        Continue (s\<lparr>out := out s @ [tag @ '' NO TLS not configured'' @ CRLF]\<rparr>))"
proof (intro conjI impI allI)
  fix t c as s'
  assume "secure s" "dispatch srv s t c as = Continue s' \<or> dispatch srv s t c as = Return s'"
  then show "secure s'" using secure_dispatch [of s srv t c as] by auto
next
  fix s'
  assume "secure s" "handle srv s sl = Continue s' \<or> handle srv s sl = Return s'"
  then show "secure s'" using secure_handle [of s srv sl] by auto
next
  fix s'
  assume "secure s" "serve_loop srv s sls = Return s'"
  then show "secure s'" using secure_serve_loop [of s srv sls] by auto
next
  assume "ascii sl \<and> parse_line sl = Some (tag, ''starttls'', args) \<and> secure s"
  then show "handle srv s sl =
      Continue (s\<lparr>out := out s @ [tag @ '' NO connection already secure'' @ CRLF]\<rparr>)"
    by (simp add: handle_def dispatch_def cmd_starttls_def sendlinef_def sendf_def)
next
  assume "ascii sl \<and> parse_line sl = Some (tag, ''starttls'', args) \<and> \<not> secure s \<and> TlsConfig srv = None"
  then show "handle srv s sl =
      Continue (s\<lparr>out := out s @ [tag @ '' NO TLS not configured'' @ CRLF]\<rparr>)"
    by (simp add: handle_def dispatch_def cmd_starttls_def sendlinef_def sendf_def)
qed

text \<open>
  The theorem at work: \<open>STARTTLS\<close> on a session that is secure, on a session of the server
  without TLS material, and twice on one connection of the server with TLS material,
  where the first upgrades the connection and the second is refused.
\<close>

theorem secure_is_monotonic_witness:
  "ascii (''a2 STARTTLS'' @ CRLF) \<and>
   parse_line (''a2 STARTTLS'' @ CRLF) = Some (''a2'', ''starttls'', []) \<and>
   secure (newSession True False True) \<and>
   handle example_server (newSession True False True) (''a2 STARTTLS'' @ CRLF) =
     Continue ((newSession True False True)\<lparr>out := [''a2 NO connection already secure'' @ CRLF]\<rparr>) \<and>
   \<not> secure (newSession False False True) \<and> TlsConfig plain_server = None \<and>
   handle plain_server (newSession False False True) (''a2 STARTTLS'' @ CRLF) =
     Continue ((newSession False False True)\<lparr>out := [''a2 NO TLS not configured'' @ CRLF]\<rparr>) \<and>
   handle example_server (newSession False False True) (''a1 STARTTLS'' @ CRLF) =
     Continue ((newSession True False True)\<lparr>out :=
       [''%!s(MISSING) OK Begin TLS negotiation now'' @ CRLF]\<rparr>) \<and>
   serve_loop example_server (newSession False False True)
       [''a1 STARTTLS'' @ CRLF, ''a2 STARTTLS'' @ CRLF] =
     Return ((newSession True False True)\<lparr>out :=
       [''%!s(MISSING) OK Begin TLS negotiation now'' @ CRLF,
        ''a2 NO connection already secure'' @ CRLF]\<rparr>) \<and>
   secure ((newSession True False True)\<lparr>out :=
       [''%!s(MISSING) OK Begin TLS negotiation now'' @ CRLF,
        ''a2 NO connection already secure'' @ CRLF]\<rparr>)"
proof -
  let ?l1 = "''a1 STARTTLS'' @ CRLF" and ?l2 = "''a2 STARTTLS'' @ CRLF"
  let ?s1 = "(newSession True False True)\<lparr>out := [''%!s(MISSING) OK Begin TLS negotiation now'' @ CRLF]\<rparr>"
  let ?s2 = "(newSession True False True)\<lparr>out :=
       [''%!s(MISSING) OK Begin TLS negotiation now'' @ CRLF,
        ''a2 NO connection already secure'' @ CRLF]\<rparr>"
  have a: "ascii ?l2"
    by (simp add: ascii_def CRLF_def)
  have p1: "parse_line ?l1 = Some (''a1'', ''starttls'', [])"
    by (simp add: parse_line_def str_defs)
  have p2: "parse_line ?l2 = Some (''a2'', ''starttls'', [])"
    by (simp add: parse_line_def str_defs)
  have sec: "secure (newSession True False True)" and sec1: "secure ?s1"
    and insec: "\<not> secure (newSession False False True)"
    by (simp_all add: newSession_def)
  have notls: "TlsConfig plain_server = None"
    by (simp add: plain_server_def)
  have "handle example_server (newSession True False True) ?l2 =
      Continue ((newSession True False True)\<lparr>out := out (newSession True False True) @
        [''a2'' @ '' NO connection already secure'' @ CRLF]\<rparr>)"
    by (rule secure_is_monotonic [THEN conjunct2, THEN conjunct1, THEN mp,
          OF conjI [OF a conjI [OF p2 sec]]])
  moreover have o: "out (newSession b False True) = []" for b
    by (simp add: newSession_def)
  ultimately have h1: "handle example_server (newSession True False True) ?l2 =
      Continue ((newSession True False True)\<lparr>out := [''a2 NO connection already secure'' @ CRLF]\<rparr>)"
    by (simp add: o)
  have "handle plain_server (newSession False False True) ?l2 =
      Continue ((newSession False False True)\<lparr>out := out (newSession False False True) @
        [''a2'' @ '' NO TLS not configured'' @ CRLF]\<rparr>)"
    by (rule secure_is_monotonic [THEN conjunct2, THEN conjunct2, THEN mp,
          OF conjI [OF a conjI [OF p2 conjI [OF insec notls]]]])
  then have h2: "handle plain_server (newSession False False True) ?l2 =
      Continue ((newSession False False True)\<lparr>out := [''a2 NO TLS not configured'' @ CRLF]\<rparr>)"
    by (simp add: o)
  have h3: "handle example_server (newSession False False True) ?l1 = Continue ?s1"
    unfolding handle_parsed [OF p1] dispatch_starttls
    by (simp add: cmd_starttls_def example_server_def newSession_def sendlinef_def sendf_def)
  have "handle example_server ?s1 ?l2 =
      Continue (?s1\<lparr>out := out ?s1 @ [''a2'' @ '' NO connection already secure'' @ CRLF]\<rparr>)"
    by (rule secure_is_monotonic [THEN conjunct2, THEN conjunct1, THEN mp,
          OF conjI [OF a conjI [OF p2 sec1]]])
  then have h4: "handle example_server ?s1 ?l2 = Continue ?s2"
    by simp
  have h5: "serve_loop example_server (newSession False False True) [?l1, ?l2] = Return ?s2"
    unfolding serve_loop.simps h3 outcome.case h4 by (rule refl)
  have m6: "\<forall>s'. serve_loop example_server ?s1 [?l2] = Return s' \<longrightarrow> secure s'"
    by (rule secure_is_monotonic [THEN conjunct1, THEN mp, OF sec1, THEN conjunct2,
          THEN conjunct2])
  have r6: "serve_loop example_server ?s1 [?l2] = Return ?s2"
    unfolding serve_loop.simps h4 outcome.case by (rule refl)
  have h6: "secure ?s2"
    by (rule m6 [THEN spec, THEN mp, OF r6])
  show ?thesis
    by (intro conjI) (rule a p2 sec h1 insec notls h2 h3 h5 h6)+
qed

section \<open>CAPABILITY\<close>

text \<open>
  Claim C8. For every session, the answer to \<open>CAPABILITY\<close> is an untagged line that lists
  \<open>IMAP4rev1\<close>, then \<open>STARTTLS\<close> exactly when the server has TLS material (whether or not
  the session is secure), then \<open>AUTH=login\<close> when the session is secure or login over an
  insecure connection is allowed and \<open>LOGINDISABLED\<close> otherwise; a tagged OK follows.
\<close>

theorem capability_line:
  assumes "ascii sl" and "parse_line sl = Some (tag, ''capability'', args)"
  shows "handle srv s sl =
           Continue (s\<lparr>out := out s @
             [''* CAPABILITY '' @ Join (capabilities srv s) '' '' @ CRLF,
              tag @ '' OK CAPABILITY completed'' @ CRLF]\<rparr>) \<and>
         Join (capabilities srv s) '' '' =
           ''IMAP4rev1'' @ (if TlsConfig srv \<noteq> None then '' STARTTLS'' else []) @
           (if secure s \<or> InsecureLogin srv then '' AUTH=login'' else '' LOGINDISABLED'') \<and>
         ''IMAP4rev1'' \<in> set (capabilities srv s) \<and>
         (''STARTTLS'' \<in> set (capabilities srv s) \<longleftrightarrow> TlsConfig srv \<noteq> None) \<and>
         (''AUTH=login'' \<in> set (capabilities srv s) \<longleftrightarrow> secure s \<or> InsecureLogin srv) \<and>
         (''LOGINDISABLED'' \<in> set (capabilities srv s) \<longleftrightarrow> \<not> (secure s \<or> InsecureLogin srv))"
  using assms(2)
  by (simp add: handle_def dispatch_def cmd_capability_def capabilities_def sendlinef_def sendf_def)

text \<open>
  The end-to-end example of the specification: a plaintext connection to a server with
  TLS material and login over an insecure connection not allowed.
\<close>

theorem capability_line_witness:
  "ascii (''a1 CAPABILITY'' @ CRLF) \<and>
   parse_line (''a1 CAPABILITY'' @ CRLF) = Some (''a1'', ''capability'', []) \<and>
   handle example_server (newSession False False True) (''a1 CAPABILITY'' @ CRLF) =
     Continue ((newSession False False True)\<lparr>out :=
       [''* CAPABILITY IMAP4rev1 STARTTLS LOGINDISABLED'' @ CRLF,
        ''a1 OK CAPABILITY completed'' @ CRLF]\<rparr>)"
proof -
  have a: "ascii (''a1 CAPABILITY'' @ CRLF)"
    by (simp add: ascii_def CRLF_def)
  have p: "parse_line (''a1 CAPABILITY'' @ CRLF) = Some (''a1'', ''capability'', [])"
    by (simp add: parse_line_def str_defs)
  from capability_line [OF a p, of example_server "newSession False False True"] a p
  show ?thesis
    by (simp add: example_server_def newSession_def)
qed


section \<open>Invalid item names\<close>

lemma Fetch_inbox: "FetchMessagesByUID inbox ranges names = ([], None)"
  by (simp add: inbox_def)

lemma parse_names_X_FLAGS:
  "parseMessageDataItemNames ''(UID X-FLAGS)'' =
     Returns (Some [named ''UID'', named ''FLAGS''], None)"
  by code_simp

lemma parse_names_INVALID:
  "parseMessageDataItemNames ''(UID INVALID)'' =
     Returns (Some [named ''UID''], Some (ErrInvalidDataItem ''INVALID''))"
  by code_simp

text \<open>
  Claim C9 (in a parenthesized item list, the first token whose simple name is not in
  the allow-list aborts the parse with a failure that names the raw token, and no
  successful result reaches the enclosing command), on the code. The claim's own example
  \<open>(UID INVALID)\<close> fails naming \<open>INVALID\<close>, and \<open>UID FETCH\<close> answers
  \<open>BAD invalid item names\<close>. But the items are not the space-separated tokens of the list:
  they are the matches of the item pattern, and the search passes over text that the
  pattern does not match. So \<open>(UID X-FLAGS)\<close>, whose token \<open>X-FLAGS\<close> is not in the
  allow-list, parses with success as \<open>UID\<close> and \<open>FLAGS\<close>, and \<open>UID FETCH\<close> with that list calls
  the mailbox and answers \<open>OK Success\<close>; \<open>(INVALID!)\<close> parses with success as the empty
  list; and \<open>(NOT_VALID)\<close> fails naming \<open>VALID\<close>, a part of the token.
\<close>

theorem unmatched_text_is_skipped:
  "''X-FLAGS'' \<in> set (Split ''UID X-FLAGS'' (CHR '' '')) \<and>
   \<not> validDataItemNames (ToUpper ''X-FLAGS'') \<and>
   parseMessageDataItemNames ''(UID X-FLAGS)'' =
     Returns (Some [named ''UID'', named ''FLAGS''], None) \<and>
   handle example_server (s\<lparr>mailbox := Some inbox\<rparr>) (''a1 UID FETCH 1 (UID X-FLAGS)'' @ CRLF) =
     Continue (s\<lparr>mailbox := Some inbox, out := out s @ [''a1 OK Success'' @ CRLF]\<rparr>) \<and>
   parseMessageDataItemNames ''(INVALID!)'' = Returns (Some [], None) \<and>
   parseMessageDataItemNames ''(NOT_VALID)'' =
     Returns (Some [], Some (ErrInvalidDataItem ''VALID'')) \<and>
   parseMessageDataItemNames ''(UID INVALID)'' =
     Returns (Some [named ''UID''], Some (ErrInvalidDataItem ''INVALID'')) \<and>
   handle example_server s (''a2 UID FETCH 1 (UID INVALID)'' @ CRLF) =
     Continue (s\<lparr>out := out s @ [''a2 BAD invalid item names'' @ CRLF]\<rparr>)"
proof -
  have t: "''X-FLAGS'' \<in> set (Split ''UID X-FLAGS'' (CHR '' ''))"
    by simp
  have v: "\<not> validDataItemNames (ToUpper ''X-FLAGS'')"
    by (simp add: validDataItemNames_def str_defs)
  have p1: "parse_line (''a1 UID FETCH 1 (UID X-FLAGS)'' @ CRLF) =
      Some (''a1'', ''uid'', [''FETCH'', ''1'', ''(UID'', ''X-FLAGS)''])"
    by (simp add: parse_line_def str_defs)
  have p2: "parse_line (''a2 UID FETCH 1 (UID INVALID)'' @ CRLF) =
      Some (''a2'', ''uid'', [''FETCH'', ''1'', ''(UID'', ''INVALID)''])"
    by (simp add: parse_line_def str_defs)
  have n1: "parseMessageDataItemNames (Join [''(UID'', ''X-FLAGS)''] '' '') =
      Returns (Some [named ''UID'', named ''FLAGS''], None)"
    using parse_names_X_FLAGS by simp
  have n2: "parseMessageDataItemNames (Join [''(UID'', ''INVALID)''] '' '') =
      Returns (Some [named ''UID''], Some (ErrInvalidDataItem ''INVALID''))"
    using parse_names_INVALID by simp
  have m: "mailbox (s\<lparr>mailbox := Some inbox\<rparr>) = Some inbox"
    by simp
  have h1: "handle example_server (s\<lparr>mailbox := Some inbox\<rparr>)
        (''a1 UID FETCH 1 (UID X-FLAGS)'' @ CRLF) =
      Continue (s\<lparr>mailbox := Some inbox, out := out s @ [''a1 OK Success'' @ CRLF]\<rparr>)"
    unfolding handle_parsed [OF p1] dispatch_uid
      uid_fetch_nothing_found [OF parse_range_1 n1 m Fetch_inbox]
    by simp
  have h2: "handle example_server s (''a2 UID FETCH 1 (UID INVALID)'' @ CRLF) =
      Continue (s\<lparr>out := out s @ [''a2 BAD invalid item names'' @ CRLF]\<rparr>)"
    unfolding handle_parsed [OF p2] dispatch_uid uid_fetch_bad_names [OF n2]
    by simp
  have e: "parseMessageDataItemNames ''(INVALID!)'' = Returns (Some [], None)"
    by code_simp
  have f: "parseMessageDataItemNames ''(NOT_VALID)'' =
      Returns (Some [], Some (ErrInvalidDataItem ''VALID''))"
    by code_simp
  show ?thesis
    by (intro conjI) (rule t v parse_names_X_FLAGS h1 e f parse_names_INVALID h2)+
qed

end
